theory Spec2Isabelle
  imports Main "HOL-Library.Sublist" "HOL-Library.AList"
begin

section \<open>Python values\<close>

text \<open>
  The tools of the meeting agent receive the session as a Python \<^verbatim>\<open>dict\<close> and read the
  Minutes of Meeting (MoM) that \<^verbatim>\<open>json.loads\<close> produced, with no schema check. The
  values are therefore modelled untyped, as Python has them: \<open>pyval\<close> covers the values of
  JSON (floating-point numbers left out). A dict is an association list in insertion
  order, read with \<open>map_of\<close>. Values are trees: two keys never share one list object.

  A string is the list of the bytes of its UTF-8 encoding (a lone surrogate, which
  \<^verbatim>\<open>json.loads\<close> can produce, as its three bytes), so ASCII text is written as it is.
  Concatenation, comparison, \<^verbatim>\<open>in\<close> and \<^verbatim>\<open>replace\<close> act on the bytes as they act on the
  characters. What a built-in does with a string by the tables of Unicode (case, white
  space, digits, word characters, printable characters) is not defined here: those
  built-ins are the fields of the record \<open>python\<close>, which every tool takes, and the
  properties are proved for every such record. The examples, whose texts are ASCII, are
  run with the record \<open>ascii_python\<close>. The \<^verbatim>\<open>print\<close> calls that log progress are left
  out.
\<close>

datatype pyval =
    PNone
  | PBool bool
  | PInt int
  | PStr string
  | PList "pyval list"
  | PDict "(string \<times> pyval) list"

type_synonym session = "(string \<times> pyval) list"

text \<open>
  Exceptions a tool lets escape. \<open>AttributeError t a\<close> is
  \<^verbatim>\<open>'t' object has no attribute 'a'\<close>; \<open>Propagated msg\<close> is an exception of a library
  call that no handler of the tool catches.
\<close>

datatype exn =
    KeyError
  | IndexError
  | TypeError
  | AttributeError string string
  | Propagated string

text \<open>
  How a call into a library or a remote system fails, by the class the handlers test:
  \<^verbatim>\<open>requests.exceptions.RequestException\<close>, \<^verbatim>\<open>smtplib.SMTPException\<close>, or any other
  \<^verbatim>\<open>Exception\<close>. The string is \<^verbatim>\<open>str(e)\<close>.
\<close>

datatype failure =
    RequestException string
  | SMTPException string
  | OtherException string

fun failure_text :: "failure \<Rightarrow> string" where
  "failure_text (RequestException m) = m"
| "failure_text (SMTPException m) = m"
| "failure_text (OtherException m) = m"

subsection \<open>Strings\<close>

definition sq :: string where
  "sq = [CHR 0x27]"

definition dq :: string where
  "dq = [CHR 0x22]"

definition nl :: string where
  "nl = [CHR 0x0A]"

definition bs :: string where
  "bs = [CHR 0x5C]"

text \<open>\<^verbatim>\<open>sub in s\<close> on strings: \<open>sub\<close> occurs in \<open>s\<close> as a contiguous piece.\<close>

primrec py_in :: "string \<Rightarrow> string \<Rightarrow> bool" where
  "py_in sub [] = (sub = [])"
| "py_in sub (c # cs) = (prefix sub (c # cs) \<or> py_in sub cs)"

text \<open>
  \<^verbatim>\<open>s.replace(old, new)\<close>: the occurrences of \<open>old\<close> are replaced from the left, without
  overlap.
\<close>

function py_replace :: "string \<Rightarrow> string \<Rightarrow> string \<Rightarrow> string" where
  "py_replace old new [] = (if old = [] then new else [])"
| "py_replace old new (c # cs) =
     (if old = [] then new @ c # py_replace old new cs
      else if prefix old (c # cs) then new @ py_replace old new (drop (length old) (c # cs))
      else c # py_replace old new cs)"
  by pat_completeness auto
termination
  by (relation "measure (\<lambda>(old, new, s). length s)") auto

text \<open>\<^verbatim>\<open>sep.join(parts)\<close>\<close>

fun join :: "string \<Rightarrow> string list \<Rightarrow> string" where
  "join sep [] = []"
| "join sep [x] = x"
| "join sep (x # y # ys) = x @ sep @ join sep (y # ys)"

text \<open>
  The characters of a string, each with the bytes of its encoding: the first byte of a
  character tells how many bytes follow it.
\<close>

definition followers :: "char \<Rightarrow> nat" where
  "followers c =
     (let n = (of_char c :: nat) in
      if n < 192 then 0 else if n < 224 then 1 else if n < 240 then 2 else 3)"

function str_chars :: "string \<Rightarrow> string list" where
  "str_chars [] = []"
| "str_chars (c # cs) = (c # take (followers c) cs) # str_chars (drop (followers c) cs)"
  by pat_completeness auto
termination
  by (relation "measure length") auto

text \<open>Decimal digits of an integer, as \<^verbatim>\<open>str\<close> and \<^verbatim>\<open>repr\<close> write it.\<close>

definition digit_char :: "nat \<Rightarrow> char" where
  "digit_char n = ''0123456789abcdef'' ! n"

fun show_nat :: "nat \<Rightarrow> string" where
  "show_nat n = (if n < 10 then [digit_char n] else show_nat (n div 10) @ [digit_char (n mod 10)])"

definition show_int :: "int \<Rightarrow> string" where
  "show_int i = (if i < 0 then ''-'' @ show_nat (nat (- i)) else show_nat (nat i))"

subsection \<open>The built-ins that read the tables of Unicode\<close>

text \<open>
  \<^item> \<open>str_lower\<close> is \<^verbatim>\<open>s.lower()\<close>;
  \<^item> \<open>str_strip\<close> is \<^verbatim>\<open>s.strip()\<close>;
  \<^item> \<open>str_int\<close> is \<^verbatim>\<open>int(s)\<close>, with \<open>None\<close> for \<^verbatim>\<open>ValueError\<close>;
  \<^item> \<open>str_repr\<close> is \<^verbatim>\<open>repr(s)\<close> of a string;
  \<^item> \<open>re_search pattern s\<close> says whether \<^verbatim>\<open>re.search(pattern, s, re.IGNORECASE)\<close> finds
    a match.
\<close>

record python =
  str_lower :: "string \<Rightarrow> string"
  str_strip :: "string \<Rightarrow> string"
  str_int :: "string \<Rightarrow> int option"
  str_repr :: "string \<Rightarrow> string"
  re_search :: "string \<Rightarrow> string \<Rightarrow> bool"

subsection \<open>The built-ins on ASCII text\<close>

text \<open>
  What the five built-ins do when every character of the text is ASCII. Nothing is
  claimed of them on other texts.
\<close>

definition is_upper :: "char \<Rightarrow> bool" where
  "is_upper c = (c \<in> set ''ABCDEFGHIJKLMNOPQRSTUVWXYZ'')"

definition is_lower :: "char \<Rightarrow> bool" where
  "is_lower c = (c \<in> set ''abcdefghijklmnopqrstuvwxyz'')"

definition is_digit :: "char \<Rightarrow> bool" where
  "is_digit c = (c \<in> set ''0123456789'')"

definition lower_char :: "char \<Rightarrow> char" where
  "lower_char c =
     (case map_of (zip ''ABCDEFGHIJKLMNOPQRSTUVWXYZ'' ''abcdefghijklmnopqrstuvwxyz'') c of
        Some d \<Rightarrow> d
      | None \<Rightarrow> c)"

definition ascii_lower :: "string \<Rightarrow> string" where
  "ascii_lower s = map lower_char s"

text \<open>The ASCII characters that \<^verbatim>\<open>str.isspace()\<close> accepts, which \<^verbatim>\<open>strip()\<close> removes.\<close>

definition is_space :: "char \<Rightarrow> bool" where
  "is_space c =
     (c \<in> set [CHR 0x09, CHR 0x0A, CHR 0x0B, CHR 0x0C, CHR 0x0D,
                CHR 0x1C, CHR 0x1D, CHR 0x1E, CHR 0x1F, CHR 0x20])"

definition ascii_strip :: "string \<Rightarrow> string" where
  "ascii_strip s = rev (dropWhile is_space (rev (dropWhile is_space s)))"

text \<open>
  \<^verbatim>\<open>int(s)\<close>: the white space it skips at both ends is the tab, the four line
  characters 0x0A to 0x0D and the space; then a sign, then decimal digits, single
  underscores allowed between two digits; at most 4300 digits.
\<close>

definition is_int_space :: "char \<Rightarrow> bool" where
  "is_int_space c = (c \<in> set [CHR 0x09, CHR 0x0A, CHR 0x0B, CHR 0x0C, CHR 0x0D, CHR 0x20])"

fun int_digits :: "string \<Rightarrow> bool" where
  "int_digits [] = False"
| "int_digits [c] = is_digit c"
| "int_digits (c # d # ds) =
     (is_digit c \<and> (if d = CHR ''_'' then int_digits ds else int_digits (d # ds)))"

definition digit_value :: "char \<Rightarrow> nat" where
  "digit_value c = (case map_of (zip ''0123456789'' [0..<10]) c of None \<Rightarrow> 0 | Some n \<Rightarrow> n)"

definition digits_value :: "string \<Rightarrow> nat" where
  "digits_value ds = foldl (\<lambda>acc c. 10 * acc + digit_value c) 0 (filter is_digit ds)"

definition int_literal :: "string \<Rightarrow> nat option" where
  "int_literal ds =
     (if int_digits ds \<and> length (filter is_digit ds) \<le> 4300 then Some (digits_value ds)
      else None)"

definition ascii_int :: "string \<Rightarrow> int option" where
  "ascii_int s =
     (case rev (dropWhile is_int_space (rev (dropWhile is_int_space s))) of
        [] \<Rightarrow> None
      | c # r \<Rightarrow>
          (if c = CHR ''-'' then map_option (\<lambda>n. - int n) (int_literal r)
           else if c = CHR ''+'' then map_option int (int_literal r)
           else map_option int (int_literal (c # r))))"

text \<open>
  \<^verbatim>\<open>repr\<close> of a string: single quotes, unless the text has a single quote and no double
  quote; the backslash, the quote and the control characters escaped.
\<close>

definition repr_char :: "char \<Rightarrow> char \<Rightarrow> string" where
  "repr_char q c =
     (let n = (of_char c :: nat) in
      if c = q \<or> c = CHR 0x5C then [CHR 0x5C, c]
      else if n = 10 then [CHR 0x5C, CHR ''n'']
      else if n = 13 then [CHR 0x5C, CHR ''r'']
      else if n = 9 then [CHR 0x5C, CHR ''t'']
      else if n < 32 \<or> n = 127 then [CHR 0x5C, CHR ''x'', digit_char (n div 16), digit_char (n mod 16)]
      else [c])"

definition ascii_repr :: "string \<Rightarrow> string" where
  "ascii_repr s =
     (let q = (if CHR 0x27 \<in> set s \<and> CHR 0x22 \<notin> set s then CHR 0x22 else CHR 0x27)
      in q # concat (map (repr_char q) s) @ [q])"

text \<open>
  A search for a pattern \<^verbatim>\<open>\b(a|b|...)\b\<close>, a list of alternatives between two word
  boundaries, each alternative a text of letters, digits, underscores and spaces, without
  regard to case. Both patterns of the tools have that form; a pattern of another form is
  not interpreted. \<open>boundary before after\<close> is \<^verbatim>\<open>\b\<close> between two neighbouring characters
  (\<open>None\<close> at either end of the text); a word character is a letter, a digit or the
  underscore.
\<close>

definition is_word_char :: "char \<Rightarrow> bool" where
  "is_word_char c = (is_upper c \<or> is_lower c \<or> is_digit c \<or> c = CHR ''_'')"

definition word_at :: "char option \<Rightarrow> bool" where
  "word_at c = (case c of None \<Rightarrow> False | Some x \<Rightarrow> is_word_char x)"

definition boundary :: "char option \<Rightarrow> char option \<Rightarrow> bool" where
  "boundary before after = (word_at before \<noteq> word_at after)"

definition first_char :: "string \<Rightarrow> char option" where
  "first_char s = (case s of [] \<Rightarrow> None | c # _ \<Rightarrow> Some c)"

text \<open>One alternative matches at the start of \<open>s\<close>, \<open>prev\<close> being the character before.\<close>

definition alt_matches :: "char option \<Rightarrow> string \<Rightarrow> string \<Rightarrow> bool" where
  "alt_matches prev s alt =
     (boundary prev (first_char s)
      \<and> prefix (ascii_lower alt) (ascii_lower s)
      \<and> boundary (if alt = [] then prev else Some (last (take (length alt) s)))
           (first_char (drop (length alt) s)))"

fun search_from :: "string list \<Rightarrow> char option \<Rightarrow> string \<Rightarrow> bool" where
  "search_from alts prev [] = list_ex (alt_matches prev []) alts"
| "search_from alts prev (c # cs) =
     (list_ex (alt_matches prev (c # cs)) alts \<or> search_from alts (Some c) cs)"

definition search_words :: "string list \<Rightarrow> string \<Rightarrow> bool" where
  "search_words alts s = search_from alts None s"

text \<open>The alternatives of a pattern of that form, \<open>None\<close> for any other pattern.\<close>

definition is_literal :: "char \<Rightarrow> bool" where
  "is_literal c = (is_word_char c \<or> c = CHR '' '')"

fun split_bar :: "string \<Rightarrow> string list" where
  "split_bar [] = [[]]"
| "split_bar (c # cs) =
     (if c = CHR ''|'' then [] # split_bar cs
      else (case split_bar cs of [] \<Rightarrow> [[c]] | a # rest \<Rightarrow> (c # a) # rest))"

definition word_alternatives :: "string \<Rightarrow> string list option" where
  "word_alternatives pattern =
     (if 6 \<le> length pattern \<and> take 3 pattern = bs @ ''b(''
         \<and> drop (length pattern - 3) pattern = '')'' @ bs @ ''b''
         \<and> list_all is_literal (filter (\<lambda>c. c \<noteq> CHR ''|'') (take (length pattern - 6) (drop 3 pattern)))
      then Some (split_bar (take (length pattern - 6) (drop 3 pattern)))
      else None)"

definition ascii_re_search :: "string \<Rightarrow> string \<Rightarrow> bool" where
  "ascii_re_search pattern s =
     (case word_alternatives pattern of None \<Rightarrow> False | Some alts \<Rightarrow> search_words alts s)"

definition ascii_python :: python where
  "ascii_python =
     \<lparr>str_lower = ascii_lower, str_strip = ascii_strip, str_int = ascii_int,
      str_repr = ascii_repr, re_search = ascii_re_search\<rparr>"

subsection \<open>\<^verbatim>\<open>str()\<close> and \<^verbatim>\<open>repr()\<close> of a value\<close>

primrec py_repr :: "python \<Rightarrow> pyval \<Rightarrow> string" where
  "py_repr py PNone = ''None''"
| "py_repr py (PBool b) = (if b then ''True'' else ''False'')"
| "py_repr py (PInt i) = show_int i"
| "py_repr py (PStr s) = str_repr py s"
| "py_repr py (PList xs) = ''['' @ join '', '' (map (py_repr py) xs) @ '']''"
| "py_repr py (PDict kvs) =
     ''{'' @ join '', '' (map (\<lambda>kv. str_repr py (fst kv) @ '': '' @ snd kv)
                            (map (map_prod id (py_repr py)) kvs)) @ ''}''"

text \<open>\<^verbatim>\<open>str(v)\<close>, which is what an f-string puts for \<^verbatim>\<open>{v}\<close>.\<close>

definition py_str :: "python \<Rightarrow> pyval \<Rightarrow> string" where
  "py_str py v = (case v of PStr s \<Rightarrow> s | _ \<Rightarrow> py_repr py v)"

subsection \<open>Operations on values\<close>

text \<open>Truth value of a Python value, as \<^verbatim>\<open>not v\<close> and \<^verbatim>\<open>all([...])\<close> test it.\<close>

fun truthy :: "pyval \<Rightarrow> bool" where
  "truthy PNone = False"
| "truthy (PBool b) = b"
| "truthy (PInt i) = (i \<noteq> 0)"
| "truthy (PStr s) = (s \<noteq> [])"
| "truthy (PList xs) = (xs \<noteq> [])"
| "truthy (PDict kvs) = (kvs \<noteq> [])"

fun type_name :: "pyval \<Rightarrow> string" where
  "type_name PNone = ''NoneType''"
| "type_name (PBool b) = ''bool''"
| "type_name (PInt i) = ''int''"
| "type_name (PStr s) = ''str''"
| "type_name (PList xs) = ''list''"
| "type_name (PDict kvs) = ''dict''"

definition attribute_error_text :: "string \<Rightarrow> string \<Rightarrow> string" where
  "attribute_error_text t a = sq @ t @ sq @ '' object has no attribute '' @ sq @ a @ sq"

text \<open>
  \<^verbatim>\<open>str(e)\<close> for an exception of the tool's own code that a handler prints. Only
  \<open>AttributeError\<close> is raised inside a \<^verbatim>\<open>try\<close> block whose handler prints it; the text
  of the other classes is not modelled.
\<close>

fun exn_text :: "exn \<Rightarrow> string" where
  "exn_text (AttributeError t a) = attribute_error_text t a"
| "exn_text (Propagated m) = m"
| "exn_text e = []"

text \<open>\<^verbatim>\<open>d.get(k, default)\<close> on a dict.\<close>

definition dict_get :: "(string \<times> pyval) list \<Rightarrow> string \<Rightarrow> pyval \<Rightarrow> pyval" where
  "dict_get kvs k d = (case map_of kvs k of None \<Rightarrow> d | Some v \<Rightarrow> v)"

text \<open>\<^verbatim>\<open>v.get(k, default)\<close> on any value: only a dict has the method.\<close>

definition py_get :: "pyval \<Rightarrow> string \<Rightarrow> pyval \<Rightarrow> exn + pyval" where
  "py_get v k d =
     (case v of PDict kvs \<Rightarrow> Inr (dict_get kvs k d)
      | _ \<Rightarrow> Inl (AttributeError (type_name v) ''get''))"

text \<open>\<^verbatim>\<open>v.lower()\<close> on any value: only a string has the method.\<close>

definition py_lower :: "python \<Rightarrow> pyval \<Rightarrow> exn + string" where
  "py_lower py v =
     (case v of PStr s \<Rightarrow> Inr (str_lower py s)
      | _ \<Rightarrow> Inl (AttributeError (type_name v) ''lower''))"

text \<open>\<^verbatim>\<open>v[-1]\<close>. The keys of a dict are strings here, so \<open>-1\<close> is never one of them.\<close>

fun subscript_last :: "pyval \<Rightarrow> exn + pyval" where
  "subscript_last (PList xs) = (if xs = [] then Inl IndexError else Inr (last xs))"
| "subscript_last (PStr s) = (if s = [] then Inl IndexError else Inr (PStr (last (str_chars s))))"
| "subscript_last (PDict kvs) = Inl KeyError"
| "subscript_last v = Inl TypeError"

text \<open>\<^verbatim>\<open>v[k]\<close> for a string key \<open>k\<close>.\<close>

fun subscript_key :: "pyval \<Rightarrow> string \<Rightarrow> exn + pyval" where
  "subscript_key (PDict kvs) k = (case map_of kvs k of None \<Rightarrow> Inl KeyError | Some v \<Rightarrow> Inr v)"
| "subscript_key v k = Inl TypeError"

text \<open>The elements a \<^verbatim>\<open>for\<close> loop or a comprehension visits.\<close>

fun py_iter :: "pyval \<Rightarrow> exn + pyval list" where
  "py_iter (PList xs) = Inr xs"
| "py_iter (PStr s) = Inr (map PStr (str_chars s))"
| "py_iter (PDict kvs) = Inr (map (\<lambda>kv. PStr (fst kv)) kvs)"
| "py_iter v = Inl TypeError"

section \<open>The world outside the tools\<close>

text \<open>
  A mail as the tools build it. The MoM mail has a subject, the two address headers and an
  HTML body. Of the calendar invite the model keeps the subject, the two address headers
  and the organizer; its time stamps come from the clock and its identifier from the
  random generator.
\<close>

datatype mail =
    MomMail string string string string
  | InviteMail string string string string

datatype prompt_kind = SummaryPrompt | MomPrompt

text \<open>
  Every call a tool makes to a remote system, with what it sends: the URL of a fetch, the
  prompt and content of a call of the model, the endpoint, credentials and JSON payload
  of a POST (its fixed headers left out), and the steps of a mail session.
\<close>

datatype ext_call =
    HttpGet string
  | Generate prompt_kind string
  | JiraPost string string string pyval
  | SlackPost string pyval
  | SmtpConnect string int
  | SmtpLogin string string
  | SmtpSendmail string string mail

text \<open>
  A response of \<^verbatim>\<open>requests\<close>: \<open>http_error\<close> is the text of the \<^verbatim>\<open>HTTPError\<close> that
  \<^verbatim>\<open>raise_for_status()\<close> raises, \<open>json_body\<close> what \<^verbatim>\<open>.json()\<close> gives.
\<close>

record http_response =
  status :: nat
  http_error :: string
  content :: string
  json_body :: "failure + pyval"

text \<open>
  \<^verbatim>\<open>raise_for_status()\<close> raises for the codes 400 to 599 ("Raise an HTTPError for bad
  responses (4xx or 5xx)", as the older copy of the agent notes beside its call).
\<close>

definition raise_for_status :: "http_response \<Rightarrow> bool" where
  "raise_for_status r = (400 \<le> status r \<and> status r < 600)"

text \<open>
  What the tools read from outside: the environment variables, the answers of the remote
  systems, and \<^verbatim>\<open>json.loads\<close> (\<open>None\<close> is \<^verbatim>\<open>JSONDecodeError\<close>). The generative model
  is asked with one of two prompts about the fetched content.
\<close>

record world =
  environ :: "string \<Rightarrow> string option"
  http_get :: "string \<Rightarrow> failure + http_response"
  generate :: "prompt_kind \<Rightarrow> string \<Rightarrow> failure + string"
  json_loads :: "string \<Rightarrow> pyval option"
  http_post :: "ext_call \<Rightarrow> failure + http_response"
  smtp_connect :: "string \<Rightarrow> int \<Rightarrow> failure option"
  smtp_login :: "string \<Rightarrow> string \<Rightarrow> failure option"
  smtp_sendmail :: "string \<Rightarrow> string \<Rightarrow> mail \<Rightarrow> failure option"

text \<open>A variable counts as set when it is there and not empty (\<^verbatim>\<open>all([...])\<close>, \<^verbatim>\<open>not v\<close>).\<close>

definition env_set :: "string option \<Rightarrow> bool" where
  "env_set v = (case v of None \<Rightarrow> False | Some s \<Rightarrow> s \<noteq> [])"

text \<open>An environment value inside an f-string.\<close>

definition env_str :: "string option \<Rightarrow> string" where
  "env_str v = (case v of None \<Rightarrow> ''None'' | Some s \<Rightarrow> s)"

text \<open>
  One run of a tool: what it returns (a Python value, \<open>PNone\<close> when the function ends
  without \<^verbatim>\<open>return\<close>) or raises, the remote calls it made in order, and the session it
  leaves.
\<close>

record run =
  outcome :: "exn + pyval"
  calls :: "ext_call list"
  session_after :: session

definition returns :: "session \<Rightarrow> ext_call list \<Rightarrow> string \<Rightarrow> run" where
  "returns session cs s = \<lparr>outcome = Inr (PStr s), calls = cs, session_after = session\<rparr>"

definition raises :: "session \<Rightarrow> ext_call list \<Rightarrow> exn \<Rightarrow> run" where
  "raises session cs e = \<lparr>outcome = Inl e, calls = cs, session_after = session\<rparr>"

section \<open>Reading the latest MoM\<close>

text \<open>\<^verbatim>\<open>"moms" not in session or not session["moms"]\<close>\<close>

definition moms_missing :: "session \<Rightarrow> bool" where
  "moms_missing session = (case map_of session ''moms'' of None \<Rightarrow> True | Some ms \<Rightarrow> \<not> truthy ms)"

text \<open>\<^verbatim>\<open>session["moms"][-1]["mom"]\<close>\<close>

definition latest_mom :: "session \<Rightarrow> exn + pyval" where
  "latest_mom session =
     (case map_of session ''moms'' of
        None \<Rightarrow> Inl KeyError
      | Some ms \<Rightarrow>
          (case subscript_last ms of
             Inl e \<Rightarrow> Inl e
           | Inr record \<Rightarrow> subscript_key record ''mom''))"

section \<open>The action classifier\<close>

text \<open>
  The loop of \<^verbatim>\<open>analyze_mom_for_actions\<close> over the action items, with its two lists.
\<close>

fun classify ::
  "python \<Rightarrow> pyval list \<Rightarrow> pyval list \<Rightarrow> pyval list \<Rightarrow> exn + (pyval list \<times> pyval list)" where
  "classify py [] jira_items schedule_items = Inr (jira_items, schedule_items)"
| "classify py (item # rest) jira_items schedule_items =
     (case item of
        PDict kvs \<Rightarrow>
          (case py_lower py (dict_get kvs ''action'' (PStr [])) of
             Inl e \<Rightarrow> Inl e
           | Inr action_text \<Rightarrow>
               classify py rest
                 (if py_in ''jira'' action_text \<or> py_in ''create ticket'' action_text
                  then jira_items @ [dict_get kvs ''action'' PNone] else jira_items)
                 (if py_in ''schedule'' action_text \<or> py_in ''invite'' action_text
                     \<or> py_in ''call'' action_text
                  then schedule_items @ [dict_get kvs ''action'' PNone] else schedule_items))
      | _ \<Rightarrow> Inl (AttributeError (type_name item) ''get''))"

text \<open>The lines \<^verbatim>\<open>f"  - '{item}'\n"\<close> of one bucket.\<close>

definition bullet_lines :: "python \<Rightarrow> pyval list \<Rightarrow> string" where
  "bullet_lines py items = concat (map (\<lambda>item. ''  - '' @ sq @ py_str py item @ sq @ nl) items)"

definition jira_section :: "python \<Rightarrow> pyval list \<Rightarrow> string" where
  "jira_section py jira_items =
     nl @ ''- I can create JIRA tickets for the following items:'' @ nl @ bullet_lines py jira_items"

definition schedule_section :: "python \<Rightarrow> pyval list \<Rightarrow> string" where
  "schedule_section py schedule_items =
     nl @ ''- I can schedule calls for the following items:'' @ nl @ bullet_lines py schedule_items"

definition suggestions_header :: string where
  "suggestions_header = ''Based on the latest MoM, I found the following potential actions:'' @ nl"

definition no_actions_message :: string where
  "no_actions_message =
     ''I analyzed the MoM but did not find any specific action items for creating JIRA tickets or scheduling calls.''"

definition slack_offer :: string where
  "slack_offer = nl @ ''I can also send the MoM to a Slack channel. What would you like to do?''"

text \<open>The string the classifier builds from its two lists.\<close>

definition build_suggestions :: "python \<Rightarrow> pyval list \<Rightarrow> pyval list \<Rightarrow> string" where
  "build_suggestions py jira_items schedule_items =
     (let s0 = suggestions_header;
          s1 = (if jira_items \<noteq> [] then s0 @ jira_section py jira_items else s0);
          s2 = (if schedule_items \<noteq> [] then s1 @ schedule_section py schedule_items else s1);
          found_actions = (jira_items \<noteq> [] \<or> schedule_items \<noteq> []);
          s3 = (if \<not> found_actions then no_actions_message else s2)
      in s3 @ slack_offer)"

definition no_mom_to_analyze :: string where
  "no_mom_to_analyze = ''No Minutes of Meeting (MoM) found in the session to analyze.''"

definition no_action_items :: string where
  "no_action_items = ''No action items found in the latest MoM.''"

definition analyze_mom_for_actions :: "python \<Rightarrow> session \<Rightarrow> run" where
  "analyze_mom_for_actions py session =
     (if moms_missing session then returns session [] no_mom_to_analyze
      else
        (case latest_mom session of
           Inl e \<Rightarrow> raises session [] e
         | Inr mom_json \<Rightarrow>
             (case py_get mom_json ''action_items'' (PList []) of
                Inl e \<Rightarrow> raises session [] e
              | Inr action_items \<Rightarrow>
                  (if \<not> truthy action_items then returns session [] no_action_items
                   else
                     (case py_iter action_items of
                        Inl e \<Rightarrow> raises session [] e
                      | Inr items \<Rightarrow>
                          (case classify py items [] [] of
                             Inl e \<Rightarrow> raises session [] e
                           | Inr (jira_items, schedule_items) \<Rightarrow>
                               returns session [] (build_suggestions py jira_items schedule_items)))))))"

section \<open>The ticket executor\<close>

text \<open>The pattern \<^verbatim>\<open>r'\b(Jira|JIRA|ticket|create ticket)\b'\<close>.\<close>

definition jira_pattern :: string where
  "jira_pattern = bs @ ''b(Jira|JIRA|ticket|create ticket)'' @ bs @ ''b''"

definition ticket_summary :: "string \<Rightarrow> string" where
  "ticket_summary action_text = ''Meeting Action: '' @ action_text"

definition ticket_description :: "python \<Rightarrow> string \<Rightarrow> (string \<times> pyval) list \<Rightarrow> string" where
  "ticket_description py action_text item =
     ''Action from MOM:'' @ nl @ action_text @ nl @ nl
     @ ''Owner: '' @ py_str py (dict_get item ''owner'' (PStr ''N/A'')) @ nl
     @ ''Due Date: '' @ py_str py (dict_get item ''due_date'' (PStr ''N/A''))"

definition ticket_payload :: "string \<Rightarrow> string \<Rightarrow> string \<Rightarrow> pyval" where
  "ticket_payload project summary description =
     PDict [(''fields'', PDict [
       (''project'', PDict [(''key'', PStr project)]),
       (''summary'', PStr summary),
       (''description'', PDict [
          (''type'', PStr ''doc''),
          (''version'', PInt 1),
          (''content'', PList [PDict [
             (''type'', PStr ''paragraph''),
             (''content'', PList [PDict [(''text'', PStr description), (''type'', PStr ''text'')]])]])]),
       (''issuetype'', PDict [(''id'', PStr ''10001'')])])]"

text \<open>The two handlers at the end of the \<^verbatim>\<open>try\<close> block.\<close>

fun jira_failed :: "failure \<Rightarrow> string" where
  "jira_failed (RequestException m) = ''Failed to create Jira ticket: '' @ m"
| "jira_failed f = ''An unexpected error occurred: '' @ failure_text f"

definition jira_created :: "python \<Rightarrow> string \<Rightarrow> pyval \<Rightarrow> string" where
  "jira_created py jira_url ticket_id =
     ''Simulated JIRA ticket creation: Ticket ID '' @ sq @ py_str py ticket_id @ sq
     @ '', Ticket URL '' @ sq @ jira_url @ ''/browse/'' @ py_str py ticket_id @ sq"

definition jira_env_error :: string where
  "jira_env_error = ''Error: JIRA environment variables are not fully set.''"

text \<open>
  The body of the loop for an item whose text matches: every path through it ends in
  \<^verbatim>\<open>return\<close>.
\<close>

definition submit_ticket ::
  "python \<Rightarrow> world \<Rightarrow> session \<Rightarrow> string \<Rightarrow> (string \<times> pyval) list \<Rightarrow> run" where
  "submit_ticket py w session action_text item =
     (let summary = ticket_summary action_text;
          description = ticket_description py action_text item;
          project = ''KAN'';
          jira_url = environ w ''JIRA_URL'';
          api_endpoint = env_str jira_url @ ''/rest/api/3/issue'';
          email = environ w ''JIRA_USERNAME'';
          api_token = environ w ''JIRA_API_TOKEN''
      in if \<not> (env_set jira_url \<and> env_set email \<and> env_set api_token)
         then returns session [] jira_env_error
         else
           (let post = JiraPost api_endpoint (env_str email) (env_str api_token)
                         (ticket_payload project summary description)
            in case http_post w post of
                 Inl f \<Rightarrow> returns session [post] (jira_failed f)
               | Inr response \<Rightarrow>
                   (if raise_for_status response
                    then returns session [post] (jira_failed (RequestException (http_error response)))
                    else
                      (case json_body response of
                         Inl f \<Rightarrow> returns session [post] (jira_failed f)
                       | Inr ticket_data \<Rightarrow>
                           (case py_get ticket_data ''key'' PNone of
                              Inl e \<Rightarrow>
                                returns session [post] (jira_failed (OtherException (exn_text e)))
                            | Inr ticket_id \<Rightarrow>
                                returns session [post]
                                  (jira_created py (env_str jira_url) ticket_id))))))"

text \<open>The loop over the action items. After the last item the function ends without \<^verbatim>\<open>return\<close>.\<close>

fun jira_loop :: "python \<Rightarrow> world \<Rightarrow> session \<Rightarrow> pyval list \<Rightarrow> run" where
  "jira_loop py w session [] = \<lparr>outcome = Inr PNone, calls = [], session_after = session\<rparr>"
| "jira_loop py w session (item # rest) =
     (case item of
        PDict kvs \<Rightarrow>
          (case py_lower py (dict_get kvs ''action'' (PStr [])) of
             Inl e \<Rightarrow> raises session [] e
           | Inr action_text \<Rightarrow>
               (if re_search py jira_pattern action_text
                then submit_ticket py w session action_text kvs
                else jira_loop py w session rest))
      | _ \<Rightarrow> raises session [] (AttributeError (type_name item) ''get''))"

definition create_jira_ticket :: "python \<Rightarrow> world \<Rightarrow> session \<Rightarrow> run" where
  "create_jira_ticket py w session =
     (if moms_missing session then returns session [] no_mom_to_analyze
      else
        (case latest_mom session of
           Inl e \<Rightarrow> raises session [] e
         | Inr mom_json \<Rightarrow>
             (case py_get mom_json ''action_items'' (PList []) of
                Inl e \<Rightarrow> raises session [] e
              | Inr action_items \<Rightarrow>
                  (if \<not> truthy action_items then returns session [] no_action_items
                   else
                     (case py_iter action_items of
                        Inl e \<Rightarrow> raises session [] e
                      | Inr items \<Rightarrow> jira_loop py w session items)))))"

section \<open>The call-scheduling executor\<close>

text \<open>
  The pattern
  \<^verbatim>\<open>r'\b(schedule a call|set up a meeting|gmeet invite|calendar invite|meeting)\b'\<close>.
\<close>

definition schedule_pattern :: string where
  "schedule_pattern =
     bs @ ''b(schedule a call|set up a meeting|gmeet invite|calendar invite|meeting)'' @ bs @ ''b''"

text \<open>
  \<^verbatim>\<open>with smtplib.SMTP_SSL(host, port) as server: server.login(...); server.sendmail(...)\<close>:
  the three steps in order, up to the first that fails.
\<close>

definition smtp_deliver ::
  "world \<Rightarrow> string \<Rightarrow> int \<Rightarrow> string \<Rightarrow> string \<Rightarrow> string \<Rightarrow> string \<Rightarrow> mail \<Rightarrow> failure option \<times> ext_call list" where
  "smtp_deliver w host port user password sender rcpt msg =
     (case smtp_connect w host port of
        Some f \<Rightarrow> (Some f, [SmtpConnect host port])
      | None \<Rightarrow>
          (case smtp_login w user password of
             Some f \<Rightarrow> (Some f, [SmtpConnect host port, SmtpLogin user password])
           | None \<Rightarrow>
               (smtp_sendmail w sender rcpt msg,
                [SmtpConnect host port, SmtpLogin user password, SmtpSendmail sender rcpt msg])))"

definition no_mom_for_call :: string where
  "no_mom_for_call = ''Error: No MoM found in session to create a call from.''"

definition invite_env_error :: string where
  "invite_env_error = ''Error: Email credentials not configured in environment variables.''"

definition invite_sent :: string where
  "invite_sent = ''Meeting invite sent successfully via SMTP with an HTML body and calendar attachment.''"

text \<open>The body of the loop for an item whose text matches.\<close>

definition send_invite :: "world \<Rightarrow> session \<Rightarrow> run" where
  "send_invite w session =
     (let invite_summary = ''Follow-up Meeting'';
          email = ''abhishek.chauhan@neosalpha.com'';
          sender_email = environ w ''SENDER_EMAIL'';
          sender_password = environ w ''SENDER_PASSWORD''
      in if \<not> env_set sender_email \<or> \<not> env_set sender_password
         then returns session [] invite_env_error
         else
           (let sender_name = ''Meeting Invitation'';
                msg = InviteMail invite_summary sender_name email (env_str sender_email)
            in case smtp_deliver w ''smtp.gmail.com'' 465 (env_str sender_email)
                      (env_str sender_password) (env_str sender_email) email msg of
                 (None, cs) \<Rightarrow> returns session cs invite_sent
               | (Some f, cs) \<Rightarrow>
                   returns session cs (''Failed to send email invite: '' @ failure_text f)))"

fun schedule_loop :: "python \<Rightarrow> world \<Rightarrow> session \<Rightarrow> pyval list \<Rightarrow> run" where
  "schedule_loop py w session [] = \<lparr>outcome = Inr PNone, calls = [], session_after = session\<rparr>"
| "schedule_loop py w session (item # rest) =
     (case item of
        PDict kvs \<Rightarrow>
          (case py_lower py (dict_get kvs ''action'' (PStr [])) of
             Inl e \<Rightarrow> raises session [] e
           | Inr action_text \<Rightarrow>
               (if re_search py schedule_pattern action_text
                then send_invite w session
                else schedule_loop py w session rest))
      | _ \<Rightarrow> raises session [] (AttributeError (type_name item) ''get''))"

definition schedule_call :: "python \<Rightarrow> world \<Rightarrow> session \<Rightarrow> run" where
  "schedule_call py w session =
     (if moms_missing session then returns session [] no_mom_for_call
      else
        (case latest_mom session of
           Inl e \<Rightarrow> raises session [] e
         | Inr mom \<Rightarrow>
             (case py_get mom ''action_items'' (PList []) of
                Inl e \<Rightarrow> raises session [] e
              | Inr action_items \<Rightarrow>
                  (case py_iter action_items of
                     Inl e \<Rightarrow> raises session [] e
                   | Inr items \<Rightarrow> schedule_loop py w session items))))"

section \<open>The chat executor\<close>

text \<open>The two non-ASCII pieces of the message, as the bytes the source file has.\<close>

definition slack_bullet :: string where
  "slack_bullet = [CHR 0xC3, CHR 0xA2, CHR 0xE2, CHR 0x82, CHR 0xAC, CHR 0xC2, CHR 0xA2]"

definition slack_pin :: string where
  "slack_pin = [CHR 0xC3, CHR 0xB0, CHR 0xC5, CHR 0xB8, CHR 0xE2, CHR 0x80, CHR 0x9C, CHR 0xC5, CHR 0x92]"

definition slack_decision_line :: "python \<Rightarrow> pyval \<Rightarrow> string" where
  "slack_decision_line py d = ''- '' @ slack_bullet @ '' '' @ py_str py d"

text \<open>The comprehension over the action items: one entry for each, or the first error.\<close>

fun slack_action_lines :: "python \<Rightarrow> pyval list \<Rightarrow> exn + string list" where
  "slack_action_lines py [] = Inr []"
| "slack_action_lines py (a # rest) =
     (case a of
        PDict kvs \<Rightarrow>
          (case slack_action_lines py rest of
             Inl e \<Rightarrow> Inl e
           | Inr ls \<Rightarrow>
               Inr ((''- *Action:* '' @ py_str py (dict_get kvs ''action'' PNone) @ nl
                     @ ''  - *Owner:* '' @ py_str py (dict_get kvs ''owner'' (PStr ''N/A'')) @ nl
                     @ ''  - *Due Date:* '' @ py_str py (dict_get kvs ''due_date'' (PStr ''N/A''))) # ls))
      | _ \<Rightarrow> Inl (AttributeError (type_name a) ''get''))"

definition slack_message_text :: "python \<Rightarrow> pyval \<Rightarrow> exn + string" where
  "slack_message_text py mom_data =
     (case mom_data of
        PDict m \<Rightarrow>
          (let title = dict_get m ''title'' (PStr ''Meeting Minutes'');
               summary = dict_get m ''summary'' (PStr ''No summary provided.'')
           in case py_iter (dict_get m ''decisions'' (PList [])) of
                Inl e \<Rightarrow> Inl e
              | Inr ds \<Rightarrow>
                  (case py_iter (dict_get m ''action_items'' (PList [])) of
                     Inl e \<Rightarrow> Inl e
                   | Inr items \<Rightarrow>
                       (case slack_action_lines py items of
                          Inl e \<Rightarrow> Inl e
                        | Inr ls \<Rightarrow>
                            Inr (slack_pin @ '' *Minutes of Meeting: '' @ py_str py title @ ''*'' @ nl @ nl
                                 @ ''*Summary*'' @ nl @ py_str py summary @ nl @ nl
                                 @ ''*Decisions*'' @ nl @ join nl (map (slack_decision_line py) ds) @ nl @ nl
                                 @ ''*Action Items*'' @ nl @ join nl ls))))
      | _ \<Rightarrow> Inl (AttributeError (type_name mom_data) ''get''))"

definition slack_env_error :: string where
  "slack_env_error = ''Error: SLACK_API_TOKEN environment variable not set.''"

definition slack_posted :: "string \<Rightarrow> string" where
  "slack_posted channel = ''MOM successfully posted to Slack channel '' @ channel @ ''.''"

definition slack_refused :: "python \<Rightarrow> pyval \<Rightarrow> string" where
  "slack_refused py err = ''Failed to post to Slack: '' @ py_str py err"

text \<open>The handler catches \<^verbatim>\<open>RequestException\<close> only; anything else leaves the tool.\<close>

fun slack_failed :: "session \<Rightarrow> ext_call list \<Rightarrow> failure \<Rightarrow> run" where
  "slack_failed session cs (RequestException m) =
     returns session cs (''Failed to send message to Slack: '' @ m)"
| "slack_failed session cs f = raises session cs (Propagated (failure_text f))"

definition send_to_slack :: "python \<Rightarrow> world \<Rightarrow> string \<Rightarrow> session \<Rightarrow> run" where
  "send_to_slack py w channel session =
     (if moms_missing session then returns session [] no_mom_to_analyze
      else
        (case latest_mom session of
           Inl e \<Rightarrow> raises session [] e
         | Inr mom_data \<Rightarrow>
             (let slack_bot_token = environ w ''SLACK_API_TOKEN''
              in if \<not> env_set slack_bot_token then returns session [] slack_env_error
                 else
                   (case slack_message_text py mom_data of
                      Inl e \<Rightarrow> raises session [] e
                    | Inr slack_text \<Rightarrow>
                        (let post = SlackPost (env_str slack_bot_token)
                                      (PDict [(''channel'', PStr channel), (''text'', PStr slack_text)])
                         in case http_post w post of
                              Inl f \<Rightarrow> slack_failed session [post] f
                            | Inr response \<Rightarrow>
                                (if raise_for_status response
                                 then slack_failed session [post] (RequestException (http_error response))
                                 else
                                   (case json_body response of
                                      Inl f \<Rightarrow> slack_failed session [post] f
                                    | Inr response_json \<Rightarrow>
                                        (case response_json of
                                           PDict kvs \<Rightarrow>
                                             (if truthy (dict_get kvs ''ok'' PNone)
                                              then returns session [post] (slack_posted channel)
                                              else returns session [post]
                                                     (slack_refused py (dict_get kvs ''error'' PNone)))
                                         | _ \<Rightarrow>
                                             raises session [post]
                                               (AttributeError (type_name response_json) ''get'')))))))))"

section \<open>The email executor\<close>

text \<open>The four literal pieces of the f-string \<^verbatim>\<open>html_body\<close>, between its three fields.\<close>

definition html_before_summary :: string where
  "html_before_summary =
     nl
     @ ''    <html>'' @ nl
     @ ''        <head>'' @ nl
     @ ''            <style>'' @ nl
     @ ''                body { font-family: Arial, sans-serif; line-height: 1.6; color: #333; }'' @ nl
     @ ''                .container { max-width: 700px; margin: auto; padding: 20px; border: 1px solid #ddd; border-radius: 8px; }'' @ nl
     @ ''                h2, h3 { color: #0056b3; }'' @ nl
     @ ''                ul { list-style-type: none; padding: 0; }'' @ nl
     @ ''                li { margin-bottom: 10px; }'' @ nl
     @ ''                table { width: 100%; border-collapse: collapse; margin-top: 15px; }'' @ nl
     @ ''                th, td { padding: 12px; border: 1px solid #ccc; text-align: left; }'' @ nl
     @ ''                th { background-color: #f2f2f2; }'' @ nl
     @ ''            </style>'' @ nl
     @ ''        </head>'' @ nl
     @ ''        <body>'' @ nl
     @ ''            <div class='' @ dq @ ''container'' @ dq @ ''>'' @ nl
     @ ''                <h3>Summary</h3>'' @ nl
     @ ''                <p>''"

definition html_before_decisions :: string where
  "html_before_decisions =
     ''</p>'' @ nl
     @ ''                <h3>Decisions</h3>'' @ nl
     @ ''                <ul>'' @ nl
     @ ''                    ''"

definition html_before_rows :: string where
  "html_before_rows =
     nl
     @ ''                </ul>'' @ nl
     @ ''                <h3>Action Items</h3>'' @ nl
     @ ''                <table>'' @ nl
     @ ''                    <thead>'' @ nl
     @ ''                        <tr>'' @ nl
     @ ''                            <th>Action</th>'' @ nl
     @ ''                            <th>Owner</th>'' @ nl
     @ ''                            <th>Due Date</th>'' @ nl
     @ ''                        </tr>'' @ nl
     @ ''                    </thead>'' @ nl
     @ ''                    <tbody>'' @ nl
     @ ''                        ''"

definition html_after_rows :: string where
  "html_after_rows =
     nl
     @ ''                    </tbody>'' @ nl
     @ ''                </table>'' @ nl
     @ ''            </div>'' @ nl
     @ ''        </body>'' @ nl
     @ ''    </html>'' @ nl
     @ ''    ''"

definition decision_item :: "python \<Rightarrow> pyval \<Rightarrow> string" where
  "decision_item py d = ''<li>&#x2022; '' @ py_str py d @ ''</li>''"

text \<open>One row of the table of action items: \<^verbatim>\<open>a.get("due_date", "TBD")\<close> fills the last cell.\<close>

definition action_row :: "python \<Rightarrow> (string \<times> pyval) list \<Rightarrow> string" where
  "action_row py a =
     ''<tr><td>'' @ py_str py (dict_get a ''action'' PNone)
     @ ''</td><td>'' @ py_str py (dict_get a ''owner'' PNone)
     @ ''</td><td>'' @ py_str py (dict_get a ''due_date'' (PStr ''TBD''))
     @ ''</td></tr>''"

fun action_rows :: "python \<Rightarrow> pyval list \<Rightarrow> exn + string" where
  "action_rows py [] = Inr []"
| "action_rows py (a # rest) =
     (case a of
        PDict kvs \<Rightarrow>
          (case action_rows py rest of
             Inl e \<Rightarrow> Inl e
           | Inr rows \<Rightarrow> Inr (action_row py kvs @ rows))
      | _ \<Rightarrow> Inl (AttributeError (type_name a) ''get''))"

text \<open>The f-string, its fields evaluated from left to right.\<close>

definition html_body :: "python \<Rightarrow> (string \<times> pyval) list \<Rightarrow> exn + string" where
  "html_body py mom_json =
     (case py_iter (dict_get mom_json ''decisions'' (PList [])) of
        Inl e \<Rightarrow> Inl e
      | Inr ds \<Rightarrow>
          (case py_iter (dict_get mom_json ''action_items'' (PList [])) of
             Inl e \<Rightarrow> Inl e
           | Inr items \<Rightarrow>
               (case action_rows py items of
                  Inl e \<Rightarrow> Inl e
                | Inr rows \<Rightarrow>
                    Inr (html_before_summary
                         @ py_str py (dict_get mom_json ''summary'' (PStr ''No summary provided.''))
                         @ html_before_decisions
                         @ concat (map (decision_item py) ds)
                         @ html_before_rows
                         @ rows
                         @ html_after_rows))))"

definition no_mom_for_email :: string where
  "no_mom_for_email = ''Error: No Minutes of Meeting (MoM) found in the session.''"

definition smtp_env_error :: string where
  "smtp_env_error =
     ''Error: SMTP environment variables (SMTP_HOST, SMTP_PORT, SMTP_USERNAME, SMTP_PASSWORD) are not set.''"

definition smtp_port_error :: string where
  "smtp_port_error = ''Error: SMTP_PORT must be an integer.''"

definition email_sent :: string where
  "email_sent = ''Email sent successfully!''"

text \<open>
  \<^verbatim>\<open>'Minutes of Meeting: ' + mom_json.get('title', 'Untitled Meeting')\<close>: the
  concatenation needs a string.
\<close>

definition email_subject :: "pyval \<Rightarrow> exn + string" where
  "email_subject mom_json =
     (case mom_json of
        PDict m \<Rightarrow>
          (case dict_get m ''title'' (PStr ''Untitled Meeting'') of
             PStr title \<Rightarrow> Inr (''Minutes of Meeting: '' @ title)
           | _ \<Rightarrow> Inl TypeError)
      | _ \<Rightarrow> Inl (AttributeError (type_name mom_json) ''get''))"

text \<open>The part of \<^verbatim>\<open>send_email\<close> after the configuration checks.\<close>

definition deliver_mom ::
  "python \<Rightarrow> world \<Rightarrow> string \<Rightarrow> session \<Rightarrow> pyval \<Rightarrow> string \<Rightarrow> int \<Rightarrow> string \<Rightarrow> string \<Rightarrow> run" where
  "deliver_mom py w to_email session mom_json smtp_host smtp_port smtp_username smtp_password =
     (let sender_name = ''NeosAlpha Meeting Support'';
          sender_email = smtp_username
      in case email_subject mom_json of
           Inl e \<Rightarrow> raises session [] e
         | Inr subject \<Rightarrow>
             (case mom_json of
                PDict m \<Rightarrow>
                  (case html_body py m of
                     Inl e \<Rightarrow> raises session [] e
                   | Inr html \<Rightarrow>
                       (case smtp_deliver w smtp_host smtp_port smtp_username smtp_password
                               sender_email to_email (MomMail subject sender_name to_email html) of
                          (None, cs) \<Rightarrow> returns session cs email_sent
                        | (Some (SMTPException m), cs) \<Rightarrow>
                            returns session cs (''An error occurred while sending the email: '' @ m)
                        | (Some f, cs) \<Rightarrow> raises session cs (Propagated (failure_text f))))
              | _ \<Rightarrow> raises session [] (AttributeError (type_name mom_json) ''get'')))"

definition send_email :: "python \<Rightarrow> world \<Rightarrow> string \<Rightarrow> session \<Rightarrow> run" where
  "send_email py w to_email session =
     (if moms_missing session then returns session [] no_mom_for_email
      else
        (case latest_mom session of
           Inl e \<Rightarrow> raises session [] e
         | Inr mom_json \<Rightarrow>
             (let smtp_host = environ w ''SMTP_HOST'';
                  smtp_port = environ w ''SMTP_PORT'';
                  smtp_username = environ w ''SMTP_USERNAME'';
                  smtp_password = environ w ''SMTP_PASSWORD''
              in if \<not> (env_set smtp_host \<and> env_set smtp_port \<and> env_set smtp_username
                        \<and> env_set smtp_password)
                 then returns session [] smtp_env_error
                 else
                   (case str_int py (env_str smtp_port) of
                      None \<Rightarrow> returns session [] smtp_port_error
                    | Some port \<Rightarrow>
                        deliver_mom py w to_email session mom_json (env_str smtp_host) port
                          (env_str smtp_username) (env_str smtp_password)))))"

section \<open>Transcript ingestion\<close>

text \<open>
  \<^verbatim>\<open>if key not in session: session[key] = []\<close> followed by
  \<^verbatim>\<open>session[key].append(record)\<close>. Only a list has \<^verbatim>\<open>append\<close>; when the call fails
  the session is as it was.
\<close>

definition append_record :: "string \<Rightarrow> pyval \<Rightarrow> session \<Rightarrow> exn + session" where
  "append_record key record session =
     (case map_of session key of
        None \<Rightarrow> Inr (AList.update key (PList [record]) session)
      | Some (PList xs) \<Rightarrow> Inr (AList.update key (PList (xs @ [record])) session)
      | Some v \<Rightarrow> Inl (AttributeError (type_name v) ''append''))"

text \<open>\<^verbatim>\<open>response.text.strip().replace("```json", "").replace("```", "")\<close>\<close>

definition strip_fences :: "python \<Rightarrow> string \<Rightarrow> string" where
  "strip_fences py s = py_replace ''```'' [] (py_replace ''```json'' [] (str_strip py s))"

definition no_text_message :: string where
  "no_text_message = ''Could not extract any text from the provided URL.''"

definition decode_error_message :: string where
  "decode_error_message =
     ''Error: Failed to decode the MoM JSON from the model'' @ sq @ ''s response.''"

definition saved_message :: "string \<Rightarrow> string" where
  "saved_message url = ''Summary and MoM of '' @ url @ '' have been fetched and saved to session.''"

text \<open>The two handlers of the outer \<^verbatim>\<open>try\<close>.\<close>

fun fetch_failed :: "failure \<Rightarrow> string" where
  "fetch_failed (RequestException m) = ''Error: Failed to fetch the URL. Details: '' @ m"
| "fetch_failed f = ''An unexpected error occurred: '' @ failure_text f"

definition summary_record :: "string \<Rightarrow> string \<Rightarrow> pyval" where
  "summary_record url summary = PDict [(''url'', PStr url), (''summary'', PStr summary)]"

definition mom_record :: "string \<Rightarrow> pyval \<Rightarrow> pyval" where
  "mom_record url mom = PDict [(''url'', PStr url), (''mom'', mom)]"

text \<open>The two appends at the end of the \<^verbatim>\<open>try\<close> block, the summary first.\<close>

definition save_to_session :: "string \<Rightarrow> string \<Rightarrow> pyval \<Rightarrow> session \<Rightarrow> ext_call list \<Rightarrow> run" where
  "save_to_session url summary mom session cs =
     (case append_record ''summaries'' (summary_record url summary) session of
        Inl e \<Rightarrow> returns session cs (fetch_failed (OtherException (exn_text e)))
      | Inr s1 \<Rightarrow>
          (case append_record ''moms'' (mom_record url mom) s1 of
             Inl e \<Rightarrow> returns s1 cs (fetch_failed (OtherException (exn_text e)))
           | Inr s2 \<Rightarrow> returns s2 cs (saved_message url)))"

definition fetch_and_process_url :: "python \<Rightarrow> world \<Rightarrow> string \<Rightarrow> session \<Rightarrow> run" where
  "fetch_and_process_url py w url session =
     (case http_get w url of
        Inl f \<Rightarrow> returns session [HttpGet url] (fetch_failed f)
      | Inr response \<Rightarrow>
          (if raise_for_status response
           then returns session [HttpGet url] (fetch_failed (RequestException (http_error response)))
           else
             (let text_content = content response
              in if text_content = [] then returns session [HttpGet url] no_text_message
                 else
                   (case generate w SummaryPrompt text_content of
                      Inl f \<Rightarrow>
                        returns session [HttpGet url, Generate SummaryPrompt text_content]
                          (fetch_failed f)
                    | Inr summary_text \<Rightarrow>
                        (let summary = str_strip py summary_text;
                             cs = [HttpGet url, Generate SummaryPrompt text_content,
                                   Generate MomPrompt text_content]
                         in case generate w MomPrompt text_content of
                              Inl f \<Rightarrow> returns session cs (fetch_failed f)
                            | Inr mom_text \<Rightarrow>
                                (case json_loads w (strip_fences py mom_text) of
                                   None \<Rightarrow> returns session cs decode_error_message
                                 | Some mom \<Rightarrow> save_to_session url summary mom session cs))))))"

section \<open>Notions the properties are stated with\<close>

text \<open>
  An action item the loops can read: a dict whose \<^verbatim>\<open>action\<close>, when it is there, is a
  string. \<open>action_of\<close> is \<^verbatim>\<open>item.get("action")\<close>, \<open>lowered_action\<close> is
  \<^verbatim>\<open>item.get("action", "").lower()\<close>.
\<close>

definition well_formed_item :: "pyval \<Rightarrow> bool" where
  "well_formed_item item =
     (case item of
        PDict kvs \<Rightarrow> (case dict_get kvs ''action'' (PStr []) of PStr s \<Rightarrow> True | _ \<Rightarrow> False)
      | _ \<Rightarrow> False)"

definition action_of :: "pyval \<Rightarrow> pyval" where
  "action_of item = (case item of PDict kvs \<Rightarrow> dict_get kvs ''action'' PNone | _ \<Rightarrow> PNone)"

definition lowered_action :: "python \<Rightarrow> pyval \<Rightarrow> string" where
  "lowered_action py item =
     (case item of
        PDict kvs \<Rightarrow>
          (case dict_get kvs ''action'' (PStr []) of PStr s \<Rightarrow> str_lower py s | _ \<Rightarrow> [])
      | _ \<Rightarrow> [])"

text \<open>The two tests of the classifier, on an item.\<close>

definition mentions_ticket :: "python \<Rightarrow> pyval \<Rightarrow> bool" where
  "mentions_ticket py item =
     (py_in ''jira'' (lowered_action py item) \<or> py_in ''create ticket'' (lowered_action py item))"

definition mentions_call :: "python \<Rightarrow> pyval \<Rightarrow> bool" where
  "mentions_call py item =
     (py_in ''schedule'' (lowered_action py item) \<or> py_in ''invite'' (lowered_action py item)
      \<or> py_in ''call'' (lowered_action py item))"

text \<open>
  An item the ticket executor passes over: readable, and the search for the executor's
  pattern in its lower-cased text finds nothing.
\<close>

definition no_ticket_item :: "python \<Rightarrow> pyval \<Rightarrow> bool" where
  "no_ticket_item py item =
     (well_formed_item item
      \<and> \<not> re_search py (bs @ ''b(Jira|JIRA|ticket|create ticket)'' @ bs @ ''b'')
            (lowered_action py item))"


text \<open>
  The list a session holds under a key (empty when the key is absent), whether a record
  can be appended under the key, and the invariant of \<^verbatim>\<open>moms\<close>: absent, or a list that
  is not empty.
\<close>

definition stored_list :: "string \<Rightarrow> session \<Rightarrow> pyval list" where
  "stored_list key session = (case map_of session key of Some (PList xs) \<Rightarrow> xs | _ \<Rightarrow> [])"

definition appendable :: "string \<Rightarrow> session \<Rightarrow> bool" where
  "appendable key session =
     (case map_of session key of None \<Rightarrow> True | Some (PList xs) \<Rightarrow> True | Some v \<Rightarrow> False)"

definition moms_invariant :: "session \<Rightarrow> bool" where
  "moms_invariant session =
     (case map_of session ''moms'' of
        None \<Rightarrow> True
      | Some (PList xs) \<Rightarrow> xs \<noteq> []
      | Some v \<Rightarrow> False)"

text \<open>
  A step of the ingestion before the two appends fails: the fetch, the status check, the
  test for empty content, either call of the model, or the parse of the second answer.
\<close>

definition ingestion_fails :: "python \<Rightarrow> world \<Rightarrow> string \<Rightarrow> bool" where
  "ingestion_fails py w url =
     (case http_get w url of
        Inl f \<Rightarrow> True
      | Inr r \<Rightarrow>
          raise_for_status r \<or> content r = []
          \<or> (case generate w SummaryPrompt (content r) of
                Inl f \<Rightarrow> True
              | Inr summary_text \<Rightarrow>
                  (case generate w MomPrompt (content r) of
                     Inl f \<Rightarrow> True
                   | Inr mom_text \<Rightarrow> json_loads w (strip_fences py mom_text) = None)))"

section \<open>Example worlds and sessions\<close>

text \<open>A world where nothing is configured and no remote system answers.\<close>

definition silent_world :: world where
  "silent_world =
     \<lparr>environ = (\<lambda>name. None),
      http_get = (\<lambda>url. Inl (RequestException ''connection refused'')),
      generate = (\<lambda>kind text. Inl (OtherException ''model unavailable'')),
      json_loads = (\<lambda>text. None),
      http_post = (\<lambda>call. Inl (RequestException ''connection refused'')),
      smtp_connect = (\<lambda>host port. Some (OtherException ''connection refused'')),
      smtp_login = (\<lambda>user password. None),
      smtp_sendmail = (\<lambda>sender rcpt msg. None)\<rparr>"

text \<open>A session whose latest MoM has one action item, about neither a ticket nor a call.\<close>

definition report_session :: session where
  "report_session =
     [(''moms'', PList [PDict [(''url'', PStr ''https://example.com/t1''),
        (''mom'', PDict [(''title'', PStr ''Weekly sync''),
                         (''action_items'', PList [PDict [(''action'', PStr ''Send the report''),
                                                          (''owner'', PStr ''Bob'')]])])]])]"

text \<open>
  A session whose latest MoM has two ticket items and two call items in turn and one item
  that is neither, and the items of a MoM that fall into one bucket, both or none.
\<close>

definition planning_items :: "pyval list" where
  "planning_items =
     [PDict [(''action'', PStr ''Create ticket for the login bug'')],
      PDict [(''action'', PStr ''Schedule a call with the vendor'')],
      PDict [(''action'', PStr ''Update the Jira board''), (''owner'', PStr ''Ann'')],
      PDict [(''action'', PStr ''Send the invite to Bob'')],
      PDict [(''action'', PStr ''Send the report'')]]"

definition planning_mom :: "(string \<times> pyval) list" where
  "planning_mom = [(''title'', PStr ''Planning''), (''action_items'', PList planning_items)]"

definition planning_session :: session where
  "planning_session =
     [(''moms'', PList [PDict [(''url'', PStr ''https://example.com/t2''),
                               (''mom'', PDict planning_mom)]])]"

definition mixed_items :: "pyval list" where
  "mixed_items =
     [PDict [(''action'', PStr ''Update the JIRA board'')],
      PDict [(''action'', PStr ''Call the vendor''), (''owner'', PStr ''Bob'')],
      PDict [(''action'', PStr ''Create ticket and send invite'')],
      PDict [(''owner'', PStr ''Ann'')],
      PDict [(''action'', PStr ''Send the report'')]]"

text \<open>The MoM of the specification's ticket example, and one with a second ticket item.\<close>

definition follow_up_item :: "(string \<times> pyval) list" where
  "follow_up_item =
     [(''action'', PStr ''create ticket for follow-up''), (''owner'', PStr ''Alice''),
      (''due_date'', PStr ''2025-01-10'')]"

definition follow_up_mom :: "(string \<times> pyval) list" where
  "follow_up_mom = [(''title'', PStr ''Retro''), (''action_items'', PList [PDict follow_up_item])]"

definition follow_up_session :: session where
  "follow_up_session =
     [(''moms'', PList [PDict [(''url'', PStr ''https://example.com/t3''),
                               (''mom'', PDict follow_up_mom)]])]"


text \<open>A MoM with two decisions and one action item that has no due date.\<close>

definition review_item :: "(string \<times> pyval) list" where
  "review_item = [(''action'', PStr ''Send the report''), (''owner'', PStr ''Bob'')]"

definition review_mom :: "(string \<times> pyval) list" where
  "review_mom =
     [(''title'', PStr ''Review''), (''summary'', PStr ''We looked at the numbers.''),
      (''decisions'', PList [PStr ''Ship on Friday'', PStr ''Freeze the API'']),
      (''action_items'', PList [PDict review_item])]"

definition review_session :: session where
  "review_session =
     [(''moms'', PList [PDict [(''url'', PStr ''https://example.com/t5''),
                               (''mom'', PDict review_mom)]])]"



text \<open>
  A world where everything is configured. The tracker answers 400, the chat platform
  answers 200 with \<^verbatim>\<open>{"ok": false, "error": "channel_not_found"}\<close>, the mail server takes
  the mail. The model's summary has white space around it, its MoM is a JSON object inside
  a code fence, and \<open>json_loads\<close> knows that one text.
\<close>

definition sync_json :: string where
  "sync_json = ''{'' @ dq @ ''title'' @ dq @ '': '' @ dq @ ''Sync'' @ dq @ ''}''"

definition sync_payload :: pyval where
  "sync_payload = PDict [(''title'', PStr ''Sync'')]"

definition hello_page :: http_response where
  "hello_page =
     \<lparr>status = 200, http_error = [], content = ''Ann: hello'',
      json_body = Inl (RequestException ''no JSON'')\<rparr>"

definition bad_request :: http_response where
  "bad_request =
     \<lparr>status = 400, http_error = ''400 Client Error: Bad Request'', content = [],
      json_body = Inl (RequestException ''no JSON'')\<rparr>"

definition channel_not_found :: http_response where
  "channel_not_found =
     \<lparr>status = 200, http_error = [], content = [],
      json_body = Inr (PDict [(''ok'', PBool False), (''error'', PStr ''channel_not_found'')])\<rparr>"

definition posted_ok :: http_response where
  "posted_ok =
     \<lparr>status = 200, http_error = [], content = [],
      json_body = Inr (PDict [(''ok'', PBool True)])\<rparr>"

definition office_world :: world where
  "office_world =
     \<lparr>environ = map_of
        [(''JIRA_URL'', ''https://jira.example.com''), (''JIRA_USERNAME'', ''bot@example.com''),
         (''JIRA_API_TOKEN'', ''t0ken''), (''SLACK_API_TOKEN'', ''xoxb-1''),
         (''SMTP_HOST'', ''smtp.example.com''), (''SMTP_PORT'', ''465''),
         (''SMTP_USERNAME'', ''minutes@example.com''), (''SMTP_PASSWORD'', ''pw''),
         (''SENDER_EMAIL'', ''minutes@example.com''), (''SENDER_PASSWORD'', ''pw'')],
      http_get = (\<lambda>url. Inr hello_page),
      generate = (\<lambda>kind text.
         case kind of
           SummaryPrompt \<Rightarrow> Inr ('' Short sync.'' @ nl)
         | MomPrompt \<Rightarrow> Inr (''```json'' @ sync_json @ ''```'' @ nl)),
      json_loads = (\<lambda>text. if text = sync_json then Some sync_payload else None),
      http_post = (\<lambda>call.
         case call of
           JiraPost endpoint user token payload \<Rightarrow> Inr bad_request
         | SlackPost token payload \<Rightarrow> Inr channel_not_found
         | _ \<Rightarrow> Inl (OtherException ''not a POST'')),
      smtp_connect = (\<lambda>host port. None),
      smtp_login = (\<lambda>user password. None),
      smtp_sendmail = (\<lambda>sender rcpt msg. None)\<rparr>"

text \<open>The same world with a chat platform that accepts the message.\<close>

definition friendly_world :: world where
  "friendly_world = office_world\<lparr>http_post := (\<lambda>call. Inr posted_ok)\<rparr>"



text \<open>The same world with a tracker that creates the issue.\<close>

definition created :: http_response where
  "created =
     \<lparr>status = 201, http_error = [], content = [],
      json_body = Inr (PDict [(''id'', PStr ''10007''), (''key'', PStr ''KAN-7'')])\<rparr>"







section \<open>The operations on strings\<close>

text \<open>\<open>py_in\<close> is the test for a contiguous piece.\<close>

lemma py_in_sublist: "py_in sub s = (\<exists>before after. s = before @ sub @ after)"
proof (induction s)
  case Nil
  then show ?case by auto
next
  case (Cons c cs)
  have "(\<exists>before after. c # cs = before @ sub @ after)
      = (prefix sub (c # cs) \<or> (\<exists>before after. cs = before @ sub @ after))"
    using sublist_Cons_right [of sub c cs] by (simp add: sublist_def)
  then show ?case
    using Cons.IH by simp
qed

text \<open>Nothing is replaced in a text where the old piece does not occur.\<close>

lemma py_replace_absent: "old \<noteq> [] \<Longrightarrow> \<not> py_in old s \<Longrightarrow> py_replace old new s = s"
  by (induction s) auto

section \<open>Sessions without a MoM\<close>

text \<open>
  C1. When the session has no key \<^verbatim>\<open>moms\<close>, or has the empty list there, each of the five
  consumers returns its own "no MoM found" message, makes no remote call and leaves the
  session as it is.
\<close>

theorem no_mom_found:
  assumes "map_of session ''moms'' = None \<or> map_of session ''moms'' = Some (PList [])"
  shows "analyze_mom_for_actions py session =
           \<lparr>outcome = Inr (PStr ''No Minutes of Meeting (MoM) found in the session to analyze.''),
            calls = [], session_after = session\<rparr>
       \<and> create_jira_ticket py w session =
           \<lparr>outcome = Inr (PStr ''No Minutes of Meeting (MoM) found in the session to analyze.''),
            calls = [], session_after = session\<rparr>
       \<and> schedule_call py w session =
           \<lparr>outcome = Inr (PStr ''Error: No MoM found in session to create a call from.''),
            calls = [], session_after = session\<rparr>
       \<and> send_to_slack py w channel session =
           \<lparr>outcome = Inr (PStr ''No Minutes of Meeting (MoM) found in the session to analyze.''),
            calls = [], session_after = session\<rparr>
       \<and> send_email py w to_email session =
           \<lparr>outcome = Inr (PStr ''Error: No Minutes of Meeting (MoM) found in the session.''),
            calls = [], session_after = session\<rparr>"
proof -
  from assms have "moms_missing session"
    by (auto simp: moms_missing_def)
  then show ?thesis
    by (simp add: analyze_mom_for_actions_def create_jira_ticket_def schedule_call_def
        send_to_slack_def send_email_def returns_def no_mom_to_analyze_def no_mom_for_call_def
        no_mom_for_email_def)
qed

theorem no_mom_found_witness:
  "map_of [(''moms'', PList [])] ''moms'' = Some (PList [])
   \<and> analyze_mom_for_actions ascii_python [(''moms'', PList [])] =
           \<lparr>outcome = Inr (PStr ''No Minutes of Meeting (MoM) found in the session to analyze.''),
            calls = [], session_after = [(''moms'', PList [])]\<rparr>
   \<and> create_jira_ticket ascii_python silent_world [(''moms'', PList [])] =
           \<lparr>outcome = Inr (PStr ''No Minutes of Meeting (MoM) found in the session to analyze.''),
            calls = [], session_after = [(''moms'', PList [])]\<rparr>
   \<and> schedule_call ascii_python silent_world [(''moms'', PList [])] =
           \<lparr>outcome = Inr (PStr ''Error: No MoM found in session to create a call from.''),
            calls = [], session_after = [(''moms'', PList [])]\<rparr>
   \<and> send_to_slack ascii_python silent_world ''C042'' [(''moms'', PList [])] =
           \<lparr>outcome = Inr (PStr ''No Minutes of Meeting (MoM) found in the session to analyze.''),
            calls = [], session_after = [(''moms'', PList [])]\<rparr>
   \<and> send_email ascii_python silent_world ''ann@example.com'' [(''moms'', PList [])] =
           \<lparr>outcome = Inr (PStr ''Error: No Minutes of Meeting (MoM) found in the session.''),
            calls = [], session_after = [(''moms'', PList [])]\<rparr>"
  using no_mom_found [of "[(''moms'', PList [])]" ascii_python silent_world "''C042''"
      "''ann@example.com''"]
  by simp

section \<open>What the tools return\<close>

text \<open>
  C2. Every tool is declared to return a string. The ticket executor and the
  call-scheduling executor do not when no action item matches their pattern: the loop
  ends, the function has no \<^verbatim>\<open>return\<close> after it, and the caller gets \<^verbatim>\<open>None\<close>. Here the
  latest MoM has the one action item "Send the report", in any world.
\<close>

theorem no_match_returns_none:
  "outcome (create_jira_ticket ascii_python w report_session) = Inr PNone
   \<and> outcome (schedule_call ascii_python w report_session) = Inr PNone"
  by code_simp

section \<open>The classifier's buckets\<close>

text \<open>When the latest MoM can be read, the guard at the head of every consumer lets it pass.\<close>

lemma latest_mom_not_missing: "latest_mom session = Inr mom \<Longrightarrow> \<not> moms_missing session"
  by (cases "map_of session ''moms''"; cases "the (map_of session ''moms'')")
     (auto simp: latest_mom_def moms_missing_def split: if_splits)

text \<open>
  The loop of the classifier, for any two lists it starts with: each bucket grows by the
  actions of the items that pass its test, in the order of the list.
\<close>

lemma classify_acc:
  "list_all well_formed_item items \<Longrightarrow>
   classify py items js ss =
     Inr (js @ map action_of (filter (mentions_ticket py) items),
          ss @ map action_of (filter (mentions_call py) items))"
proof (induction items arbitrary: js ss)
  case Nil
  then show ?case by simp
next
  case (Cons item rest)
  from Cons.prems obtain kvs s where item: "item = PDict kvs" "dict_get kvs ''action'' (PStr []) = PStr s"
    by (auto simp: well_formed_item_def split: pyval.splits)
  from Cons.prems have rest: "list_all well_formed_item rest" by simp
  show ?case
    unfolding item(1)
    by (simp add: Cons.IH [OF rest] item(2) py_lower_def mentions_ticket_def mentions_call_def
        lowered_action_def action_of_def)
qed

text \<open>
  C3, as the code has it. For every list of readable action items the classifier
  lower-cases the action text and puts the item in the ticket bucket exactly when the
  lower-cased text contains \<^verbatim>\<open>jira\<close> or \<^verbatim>\<open>create ticket\<close>, and, independently, in the
  schedule bucket exactly when it contains \<^verbatim>\<open>schedule\<close>, \<^verbatim>\<open>invite\<close> or \<^verbatim>\<open>call\<close>. Both
  buckets keep the order of the list.
\<close>

theorem classify_buckets:
  assumes "list_all well_formed_item items"
  shows "classify py items [] [] =
     Inr (map action_of (filter (\<lambda>i. py_in ''jira'' (lowered_action py i)
                                      \<or> py_in ''create ticket'' (lowered_action py i)) items),
          map action_of (filter (\<lambda>i. py_in ''schedule'' (lowered_action py i)
                                      \<or> py_in ''invite'' (lowered_action py i)
                                      \<or> py_in ''call'' (lowered_action py i)) items))"
  using classify_acc [OF assms, of py "[]" "[]"]
  by (simp add: mentions_ticket_def [abs_def] mentions_call_def [abs_def])

theorem classify_buckets_witness:
  "list_all well_formed_item mixed_items
   \<and> classify ascii_python mixed_items [] [] =
       Inr ([PStr ''Update the JIRA board'', PStr ''Create ticket and send invite''],
            [PStr ''Call the vendor'', PStr ''Create ticket and send invite''])"
proof -
  have wf: "list_all well_formed_item mixed_items"
    by code_simp
  have tickets: "map action_of (filter (\<lambda>i. py_in ''jira'' (lowered_action ascii_python i)
                                  \<or> py_in ''create ticket'' (lowered_action ascii_python i)) mixed_items)
      = [PStr ''Update the JIRA board'', PStr ''Create ticket and send invite'']"
    by code_simp
  have calls: "map action_of (filter (\<lambda>i. py_in ''schedule'' (lowered_action ascii_python i)
                                  \<or> py_in ''invite'' (lowered_action ascii_python i)
                                  \<or> py_in ''call'' (lowered_action ascii_python i)) mixed_items)
      = [PStr ''Call the vendor'', PStr ''Create ticket and send invite'']"
    by code_simp
  show ?thesis
    using classify_buckets [OF wf, of ascii_python] wf by (simp only: tickets calls simp_thms)
qed

text \<open>
  The tokens \<^verbatim>\<open>ticket\<close> and \<^verbatim>\<open>meeting\<close> are not among the classifier's: an action
  text that contains one of them and none of the five above goes into no bucket.
\<close>

theorem classify_ticket_counterexample:
  "py_in ''ticket'' (str_lower ascii_python ''Close the ticket'')
   \<and> py_in ''meeting'' (str_lower ascii_python ''Plan the next meeting'')
   \<and> classify ascii_python [PDict [(''action'', PStr ''Close the ticket'')],
                             PDict [(''action'', PStr ''Plan the next meeting'')]] [] []
       = Inr ([], [])"
  by code_simp

section \<open>The suggestion string\<close>

text \<open>
  C6. For a latest MoM with a non-empty list of readable action items, the classifier
  returns: when no item passes either test, the "no actionable items" sentence; otherwise
  the header, then the ticket section when the ticket bucket is not empty, then the
  schedule section when the schedule bucket is not empty. A section has one line for each
  item of the list that passes its test, in the order of the list, with the item's action
  between quotes. In both cases the offer to post to Slack ends the string.
\<close>

theorem suggestions_by_bucket:
  assumes "latest_mom session = Inr (PDict m)"
    and "dict_get m ''action_items'' (PList []) = PList items"
    and "items \<noteq> []"
    and "list_all well_formed_item items"
  shows "outcome (analyze_mom_for_actions py session) = Inr (PStr
     (if filter (mentions_ticket py) items = [] \<and> filter (mentions_call py) items = []
      then ''I analyzed the MoM but did not find any specific action items for creating JIRA tickets or scheduling calls.''
           @ nl @ ''I can also send the MoM to a Slack channel. What would you like to do?''
      else ''Based on the latest MoM, I found the following potential actions:'' @ nl
           @ (if filter (mentions_ticket py) items = [] then []
              else nl @ ''- I can create JIRA tickets for the following items:'' @ nl
                   @ concat (map (\<lambda>item. ''  - '' @ sq @ py_str py (action_of item) @ sq @ nl)
                               (filter (mentions_ticket py) items)))
           @ (if filter (mentions_call py) items = [] then []
              else nl @ ''- I can schedule calls for the following items:'' @ nl
                   @ concat (map (\<lambda>item. ''  - '' @ sq @ py_str py (action_of item) @ sq @ nl)
                               (filter (mentions_call py) items)))
           @ nl @ ''I can also send the MoM to a Slack channel. What would you like to do?''))"
proof -
  have "\<not> moms_missing session"
    using assms(1) by (rule latest_mom_not_missing)
  then have "analyze_mom_for_actions py session =
      returns session [] (build_suggestions py (map action_of (filter (mentions_ticket py) items))
                                               (map action_of (filter (mentions_call py) items)))"
    using assms classify_acc [OF assms(4), of py "[]" "[]"]
    by (simp add: analyze_mom_for_actions_def py_get_def)
  then show ?thesis
    by (simp add: returns_def build_suggestions_def suggestions_header_def jira_section_def
        schedule_section_def no_actions_message_def slack_offer_def bullet_lines_def o_def)
qed

theorem suggestions_by_bucket_witness:
  "latest_mom planning_session = Inr (PDict planning_mom)
   \<and> list_all well_formed_item planning_items
   \<and> outcome (analyze_mom_for_actions ascii_python planning_session) = Inr (PStr
       (''Based on the latest MoM, I found the following potential actions:'' @ nl
        @ nl @ ''- I can create JIRA tickets for the following items:'' @ nl
        @ ''  - '' @ sq @ ''Create ticket for the login bug'' @ sq @ nl
        @ ''  - '' @ sq @ ''Update the Jira board'' @ sq @ nl
        @ nl @ ''- I can schedule calls for the following items:'' @ nl
        @ ''  - '' @ sq @ ''Schedule a call with the vendor'' @ sq @ nl
        @ ''  - '' @ sq @ ''Send the invite to Bob'' @ sq @ nl
        @ nl @ ''I can also send the MoM to a Slack channel. What would you like to do?''))
   \<and> outcome (analyze_mom_for_actions ascii_python follow_up_session) = Inr (PStr
       (''Based on the latest MoM, I found the following potential actions:'' @ nl
        @ nl @ ''- I can create JIRA tickets for the following items:'' @ nl
        @ ''  - '' @ sq @ ''create ticket for follow-up'' @ sq @ nl
        @ nl @ ''I can also send the MoM to a Slack channel. What would you like to do?''))
   \<and> outcome (analyze_mom_for_actions ascii_python review_session) = Inr (PStr
       (''I analyzed the MoM but did not find any specific action items for creating JIRA tickets or scheduling calls.''
        @ nl @ ''I can also send the MoM to a Slack channel. What would you like to do?''))"
proof -
  have latest: "latest_mom planning_session = Inr (PDict planning_mom)"
    "latest_mom follow_up_session = Inr (PDict follow_up_mom)"
    "latest_mom review_session = Inr (PDict review_mom)"
    by code_simp+
  have items: "dict_get planning_mom ''action_items'' (PList []) = PList planning_items"
    "dict_get follow_up_mom ''action_items'' (PList []) = PList [PDict follow_up_item]"
    "dict_get review_mom ''action_items'' (PList []) = PList [PDict review_item]"
    by code_simp+
  have nonempty: "planning_items \<noteq> []" "[PDict follow_up_item] \<noteq> []" "[PDict review_item] \<noteq> []"
    by code_simp+
  have wf: "list_all well_formed_item planning_items"
    "list_all well_formed_item [PDict follow_up_item]"
    "list_all well_formed_item [PDict review_item]"
    by code_simp+
  have tickets: "filter (mentions_ticket ascii_python) planning_items
      = [PDict [(''action'', PStr ''Create ticket for the login bug'')],
         PDict [(''action'', PStr ''Update the Jira board''), (''owner'', PStr ''Ann'')]]"
    "filter (mentions_ticket ascii_python) [PDict follow_up_item] = [PDict follow_up_item]"
    "filter (mentions_ticket ascii_python) [PDict review_item] = []"
    by code_simp+
  have calls: "filter (mentions_call ascii_python) planning_items
      = [PDict [(''action'', PStr ''Schedule a call with the vendor'')],
         PDict [(''action'', PStr ''Send the invite to Bob'')]]"
    "filter (mentions_call ascii_python) [PDict follow_up_item] = []"
    "filter (mentions_call ascii_python) [PDict review_item] = []"
    by code_simp+
  have actions: "action_of (PDict [(''action'', PStr ''Create ticket for the login bug'')])
      = PStr ''Create ticket for the login bug''"
    "action_of (PDict [(''action'', PStr ''Update the Jira board''), (''owner'', PStr ''Ann'')])
      = PStr ''Update the Jira board''"
    "action_of (PDict [(''action'', PStr ''Schedule a call with the vendor'')])
      = PStr ''Schedule a call with the vendor''"
    "action_of (PDict [(''action'', PStr ''Send the invite to Bob'')])
      = PStr ''Send the invite to Bob''"
    "action_of (PDict follow_up_item) = PStr ''create ticket for follow-up''"
    by code_simp+
  have one: "outcome (analyze_mom_for_actions ascii_python planning_session) = Inr (PStr
       (''Based on the latest MoM, I found the following potential actions:'' @ nl
        @ nl @ ''- I can create JIRA tickets for the following items:'' @ nl
        @ ''  - '' @ sq @ ''Create ticket for the login bug'' @ sq @ nl
        @ ''  - '' @ sq @ ''Update the Jira board'' @ sq @ nl
        @ nl @ ''- I can schedule calls for the following items:'' @ nl
        @ ''  - '' @ sq @ ''Schedule a call with the vendor'' @ sq @ nl
        @ ''  - '' @ sq @ ''Send the invite to Bob'' @ sq @ nl
        @ nl @ ''I can also send the MoM to a Slack channel. What would you like to do?''))"
    using suggestions_by_bucket [OF latest(1) items(1) nonempty(1) wf(1), of ascii_python,
        unfolded tickets calls]
    by (simp add: actions py_str_def)
  have two: "outcome (analyze_mom_for_actions ascii_python follow_up_session) = Inr (PStr
       (''Based on the latest MoM, I found the following potential actions:'' @ nl
        @ nl @ ''- I can create JIRA tickets for the following items:'' @ nl
        @ ''  - '' @ sq @ ''create ticket for follow-up'' @ sq @ nl
        @ nl @ ''I can also send the MoM to a Slack channel. What would you like to do?''))"
    using suggestions_by_bucket [OF latest(2) items(2) nonempty(2) wf(2), of ascii_python,
        unfolded tickets calls]
    by (simp add: actions py_str_def)
  have three: "outcome (analyze_mom_for_actions ascii_python review_session) = Inr (PStr
       (''I analyzed the MoM but did not find any specific action items for creating JIRA tickets or scheduling calls.''
        @ nl @ ''I can also send the MoM to a Slack channel. What would you like to do?''))"
    using suggestions_by_bucket [OF latest(3) items(3) nonempty(3) wf(3), of ascii_python,
        unfolded tickets calls]
    by simp
  show ?thesis
    using latest(1) wf(1) one two three by (intro conjI)
qed

section \<open>The ticket executor and its one request\<close>

text \<open>The loop passes over the items whose text does not match.\<close>

lemma jira_loop_skip:
  "list_all (no_ticket_item py) pre \<Longrightarrow>
   jira_loop py w session (pre @ rest) = jira_loop py w session rest"
proof (induction pre)
  case Nil
  then show ?case by simp
next
  case (Cons item pre)
  from Cons.prems obtain kvs s where item: "item = PDict kvs" "dict_get kvs ''action'' (PStr []) = PStr s"
    by (auto simp: no_ticket_item_def well_formed_item_def split: pyval.splits)
  from Cons.prems have "\<not> re_search py jira_pattern (str_lower py s)"
    by (simp add: no_ticket_item_def lowered_action_def item jira_pattern_def)
  moreover from Cons.prems have "list_all (no_ticket_item py) pre" by simp
  ultimately show ?case
    using Cons.IH by (simp add: item py_lower_def)
qed

text \<open>When it passes over every item, the loop ends and nothing is returned.\<close>

lemma jira_loop_no_match:
  "list_all (no_ticket_item py) items \<Longrightarrow>
   jira_loop py w session items = \<lparr>outcome = Inr PNone, calls = [], session_after = session\<rparr>"
  using jira_loop_skip [of py items w session "[]"] by simp






section \<open>The email executor's checks and its table\<close>




text \<open>The port as \<^verbatim>\<open>int\<close> reads it, on four ASCII texts.\<close>

lemma ascii_int_examples:
  "ascii_int ''465'' = Some 465 \<and> ascii_int ('' 465'' @ nl) = Some 465
   \<and> ascii_int (''465'' @ [CHR 0x1C]) = None \<and> ascii_int ''smtps'' = None"
  by code_simp



section \<open>The chat executor and the platform's flag\<close>

text \<open>
  C8. When the chat platform answers with a status that is no HTTP error and a JSON
  object, \<^verbatim>\<open>send_to_slack\<close> decides by the object's \<^verbatim>\<open>ok\<close>: truthy, it returns the
  success sentence with the channel; otherwise the failure sentence with the object's
  \<^verbatim>\<open>error\<close>. One POST is made either way.
\<close>

theorem slack_ok_flag:
  assumes "latest_mom session = Inr mom_data"
    and "slack_message_text py mom_data = Inr text"
    and "environ w ''SLACK_API_TOKEN'' = Some token" and "token \<noteq> []"
    and "http_post w (SlackPost token (PDict [(''channel'', PStr channel), (''text'', PStr text)])) = Inr r"
    and "\<not> raise_for_status r"
    and "json_body r = Inr (PDict body)"
  shows "outcome (send_to_slack py w channel session) =
           Inr (PStr (if truthy (dict_get body ''ok'' PNone)
                      then ''MOM successfully posted to Slack channel '' @ channel @ ''.''
                      else ''Failed to post to Slack: '' @ py_str py (dict_get body ''error'' PNone)))
       \<and> calls (send_to_slack py w channel session) =
           [SlackPost token (PDict [(''channel'', PStr channel), (''text'', PStr text)])]"
  using assms latest_mom_not_missing [OF assms(1)]
  by (simp add: send_to_slack_def env_set_def env_str_def returns_def slack_posted_def
      slack_refused_def)

theorem slack_ok_flag_witness:
  "\<not> raise_for_status channel_not_found \<and> \<not> raise_for_status posted_ok
   \<and> json_body channel_not_found
       = Inr (PDict [(''ok'', PBool False), (''error'', PStr ''channel_not_found'')])
   \<and> outcome (send_to_slack ascii_python office_world ''C042'' review_session)
       = Inr (PStr ''Failed to post to Slack: channel_not_found'')
   \<and> json_body posted_ok = Inr (PDict [(''ok'', PBool True)])
   \<and> outcome (send_to_slack ascii_python friendly_world ''C042'' review_session)
       = Inr (PStr ''MOM successfully posted to Slack channel C042.'')"
proof -
  have latest: "latest_mom review_session = Inr (PDict review_mom)"
    by code_simp
  have "\<not> isl (slack_message_text ascii_python (PDict review_mom))"
    by code_simp
  then have rendered: "slack_message_text ascii_python (PDict review_mom)
      = Inr (projr (slack_message_text ascii_python (PDict review_mom)))"
    by simp
  have token: "environ office_world ''SLACK_API_TOKEN'' = Some ''xoxb-1''"
    "environ friendly_world ''SLACK_API_TOKEN'' = Some ''xoxb-1''"
    by code_simp+
  have filled: "''xoxb-1'' \<noteq> []"
    by simp
  have refused: "http_post office_world (SlackPost t p) = Inr channel_not_found" for t p
    by (simp add: office_world_def)
  have accepted: "http_post friendly_world c = Inr posted_ok" for c
    by (simp add: friendly_world_def)
  have status: "\<not> raise_for_status channel_not_found" "\<not> raise_for_status posted_ok"
    by (simp_all add: raise_for_status_def channel_not_found_def posted_ok_def)
  have body: "json_body channel_not_found
       = Inr (PDict [(''ok'', PBool False), (''error'', PStr ''channel_not_found'')])"
    "json_body posted_ok = Inr (PDict [(''ok'', PBool True)])"
    by (simp_all add: channel_not_found_def posted_ok_def)
  have no: "outcome (send_to_slack ascii_python office_world ''C042'' review_session)
       = Inr (PStr ''Failed to post to Slack: channel_not_found'')"
    using slack_ok_flag [OF latest rendered token(1) filled refused status(1) body(1), of "''C042''"]
    by (simp add: dict_get_def py_str_def)
  have yes: "outcome (send_to_slack ascii_python friendly_world ''C042'' review_session)
       = Inr (PStr ''MOM successfully posted to Slack channel C042.'')"
    using slack_ok_flag [OF latest rendered token(2) filled accepted status(2) body(2), of "''C042''"]
    by (simp add: dict_get_def)
  show ?thesis
    using status body no yes by (intro conjI)
qed

section \<open>What the ingestion stores\<close>

text \<open>The effect of one append on the key it writes and on every other key.\<close>

lemma append_record_appendable:
  "appendable key session \<Longrightarrow>
   append_record key record session
     = Inr (AList.update key (PList (stored_list key session @ [record])) session)"
  by (auto simp: appendable_def append_record_def stored_list_def split: option.splits pyval.splits)

lemma append_record_Inr:
  "append_record key record session = Inr s' \<Longrightarrow>
   s' = AList.update key (PList (stored_list key session @ [record])) session"
  by (auto simp: append_record_def stored_list_def split: option.splits pyval.splits)

lemma append_record_other_key:
  "append_record key record session = Inr s' \<Longrightarrow> key' \<noteq> key \<Longrightarrow>
   map_of s' key' = map_of session key'"
  by (drule append_record_Inr) (simp add: update_conv')

lemma append_record_this_key:
  "append_record key record session = Inr s' \<Longrightarrow>
   map_of s' key = Some (PList (stored_list key session @ [record]))"
  by (drule append_record_Inr) (simp add: update_conv')

text \<open>No message of a handler is the confirmation.\<close>

lemma fetch_failed_not_saved: "fetch_failed f \<noteq> saved_message url"
  by (cases f) (simp_all add: saved_message_def)






section \<open>The session under the tools\<close>

text \<open>No consumer changes the session, whichever way it ends.\<close>

lemma session_after_returns [simp]: "session_after (returns session cs s) = session"
  by (simp add: returns_def)

lemma session_after_raises [simp]: "session_after (raises session cs e) = session"
  by (simp add: raises_def)

lemma analyze_keeps_session: "session_after (analyze_mom_for_actions py session) = session"
  by (simp add: analyze_mom_for_actions_def split: sum.splits prod.splits)

lemma submit_ticket_keeps_session: "session_after (submit_ticket py w session action_text item) = session"
  by (simp add: submit_ticket_def Let_def split: sum.splits)

lemma jira_loop_keeps_session: "session_after (jira_loop py w session items) = session"
  by (induction items) (simp_all add: submit_ticket_keeps_session split: pyval.splits sum.splits)

lemma create_jira_ticket_keeps_session: "session_after (create_jira_ticket py w session) = session"
  by (simp add: create_jira_ticket_def jira_loop_keeps_session split: sum.splits)

lemma send_invite_keeps_session: "session_after (send_invite w session) = session"
  by (simp add: send_invite_def Let_def split: prod.splits option.splits)

lemma schedule_loop_keeps_session: "session_after (schedule_loop py w session items) = session"
  by (induction items) (simp_all add: send_invite_keeps_session split: pyval.splits sum.splits)

lemma schedule_call_keeps_session: "session_after (schedule_call py w session) = session"
  by (simp add: schedule_call_def schedule_loop_keeps_session split: sum.splits)

lemma slack_failed_keeps_session: "session_after (slack_failed session cs f) = session"
  by (cases f) simp_all

lemma send_to_slack_keeps_session: "session_after (send_to_slack py w channel session) = session"
  by (simp add: send_to_slack_def Let_def slack_failed_keeps_session split: sum.splits pyval.splits)

lemma deliver_mom_keeps_session:
  "session_after (deliver_mom py w to_email session mom_json host port user password) = session"
  by (simp add: deliver_mom_def Let_def
      split: sum.splits pyval.splits prod.splits option.splits failure.splits)

lemma send_email_keeps_session: "session_after (send_email py w to_email session) = session"
  by (simp add: send_email_def Let_def deliver_mom_keeps_session split: sum.splits option.splits)

text \<open>What the ingestion leaves under \<^verbatim>\<open>moms\<close>: what was there, or that with one more record.\<close>

lemma save_to_session_moms:
  "map_of (session_after (save_to_session url summary mom session cs)) ''moms''
     = map_of session ''moms''
   \<or> map_of (session_after (save_to_session url summary mom session cs)) ''moms''
     = Some (PList (stored_list ''moms'' session @ [mom_record url mom]))"
proof (cases "append_record ''summaries'' (summary_record url summary) session")
  case (Inl e)
  then show ?thesis by (simp add: save_to_session_def)
next
  case s1: (Inr s1)
  have same: "map_of s1 ''moms'' = map_of session ''moms''"
    using append_record_other_key [OF s1, of "''moms''"] by simp
  show ?thesis
  proof (cases "append_record ''moms'' (mom_record url mom) s1")
    case (Inl e)
    then show ?thesis by (simp add: save_to_session_def s1 same)
  next
    case (Inr s2)
    have "stored_list ''moms'' s1 = stored_list ''moms'' session"
      by (simp add: stored_list_def same)
    then show ?thesis
      using append_record_this_key [OF Inr] by (simp add: save_to_session_def s1 Inr)
  qed
qed

lemma fetch_session_cases:
  "session_after (fetch_and_process_url py w url session) = session
   \<or> (\<exists>summary mom cs.
         fetch_and_process_url py w url session = save_to_session url summary mom session cs)"
  by (simp add: fetch_and_process_url_def Let_def split: sum.splits option.splits) blast

lemma fetch_moms:
  "map_of (session_after (fetch_and_process_url py w url session)) ''moms'' = map_of session ''moms''
   \<or> (\<exists>mom. map_of (session_after (fetch_and_process_url py w url session)) ''moms''
          = Some (PList (stored_list ''moms'' session @ [mom_record url mom])))"
proof -
  consider "session_after (fetch_and_process_url py w url session) = session"
    | summary mom cs where
        "fetch_and_process_url py w url session = save_to_session url summary mom session cs"
    using fetch_session_cases by blast
  then show ?thesis
  proof cases
    case 1
    then show ?thesis by simp
  next
    case 2
    show ?thesis
      using save_to_session_moms [of url summary mom session cs] unfolding 2 by blast
  qed
qed

text \<open>
  C9. A session whose \<^verbatim>\<open>moms\<close> is absent or a non-empty list stays so under every
  tool. The ingestion leaves \<^verbatim>\<open>moms\<close> as it was or appends one record with the URL (to
  the empty list when the key was absent); the classifier and the four executors leave
  the whole session as it was.
\<close>

theorem moms_invariant_kept:
  assumes "moms_invariant session"
  shows "moms_invariant (session_after (fetch_and_process_url py w url session))
       \<and> (map_of (session_after (fetch_and_process_url py w url session)) ''moms''
            = map_of session ''moms''
          \<or> (\<exists>mom. map_of (session_after (fetch_and_process_url py w url session)) ''moms''
                = Some (PList (stored_list ''moms'' session
                               @ [PDict [(''url'', PStr url), (''mom'', mom)]]))))
       \<and> session_after (analyze_mom_for_actions py session) = session
       \<and> session_after (create_jira_ticket py w session) = session
       \<and> session_after (schedule_call py w session) = session
       \<and> session_after (send_to_slack py w channel session) = session
       \<and> session_after (send_email py w to_email session) = session"
proof -
  let ?s' = "session_after (fetch_and_process_url py w url session)"
  have step: "map_of ?s' ''moms'' = map_of session ''moms''
      \<or> (\<exists>mom. map_of ?s' ''moms''
            = Some (PList (stored_list ''moms'' session @ [PDict [(''url'', PStr url), (''mom'', mom)]])))"
    using fetch_moms [of py w url session] by (simp add: mom_record_def)
  then have "moms_invariant ?s'"
    using assms by (auto simp: moms_invariant_def)
  then show ?thesis
    using step
    by (simp add: analyze_keeps_session create_jira_ticket_keeps_session
        schedule_call_keeps_session send_to_slack_keeps_session send_email_keeps_session)
qed

theorem moms_invariant_kept_witness:
  "moms_invariant [] \<and> moms_invariant review_session
   \<and> moms_invariant (session_after (fetch_and_process_url ascii_python office_world ''https://example.com/t6'' []))
   \<and> map_of (session_after (fetch_and_process_url ascii_python office_world ''https://example.com/t6'' [])) ''moms''
       = Some (PList [PDict [(''url'', PStr ''https://example.com/t6''), (''mom'', sync_payload)]])
   \<and> moms_invariant (session_after (fetch_and_process_url ascii_python office_world ''https://example.com/t6''
         review_session))
   \<and> session_after (analyze_mom_for_actions ascii_python review_session) = review_session
   \<and> session_after (create_jira_ticket ascii_python office_world review_session) = review_session
   \<and> session_after (schedule_call ascii_python office_world review_session) = review_session
   \<and> session_after (send_to_slack ascii_python office_world ''C042'' review_session) = review_session
   \<and> session_after (send_email ascii_python office_world ''ann@example.com'' review_session) = review_session"
proof -
  have empty: "moms_invariant []"
    by (simp add: moms_invariant_def)
  have review: "moms_invariant review_session"
    by code_simp
  have created: "map_of (session_after (fetch_and_process_url ascii_python office_world ''https://example.com/t6'' []))
      ''moms''
       = Some (PList [PDict [(''url'', PStr ''https://example.com/t6''), (''mom'', sync_payload)]])"
    by code_simp
  show ?thesis
    using moms_invariant_kept [OF empty, of ascii_python office_world "''https://example.com/t6''"]
      moms_invariant_kept [OF review, of ascii_python office_world "''https://example.com/t6''" "''C042''"
        "''ann@example.com''"]
      empty review created
    by blast
qed

text \<open>When a step before the appends fails, the tool returns at that step.\<close>

lemma fetch_failure_cases:
  assumes "ingestion_fails py w url"
  shows "\<exists>cs msg. fetch_and_process_url py w url session = returns session cs msg
     \<and> ((\<exists>f. msg = fetch_failed f) \<or> msg = no_text_message \<or> msg = decode_error_message)"
proof (cases "http_get w url")
  case (Inl f)
  then have "fetch_and_process_url py w url session = returns session [HttpGet url] (fetch_failed f)"
    by (simp add: fetch_and_process_url_def Let_def)
  then show ?thesis by blast
next
  case r: (Inr r)
  show ?thesis
  proof (cases "raise_for_status r")
    case True
    then have "fetch_and_process_url py w url session
        = returns session [HttpGet url] (fetch_failed (RequestException (http_error r)))"
      using r by (simp add: fetch_and_process_url_def Let_def)
    then show ?thesis by blast
  next
    case ok: False
    show ?thesis
    proof (cases "content r = []")
      case True
      then have "fetch_and_process_url py w url session = returns session [HttpGet url] no_text_message"
        using r ok by (simp add: fetch_and_process_url_def Let_def)
      then show ?thesis by blast
    next
      case filled: False
      show ?thesis
      proof (cases "generate w SummaryPrompt (content r)")
        case (Inl f)
        then have "fetch_and_process_url py w url session
            = returns session [HttpGet url, Generate SummaryPrompt (content r)] (fetch_failed f)"
          using r ok filled by (simp add: fetch_and_process_url_def Let_def)
        then show ?thesis by blast
      next
        case summary: (Inr summary_text)
        show ?thesis
        proof (cases "generate w MomPrompt (content r)")
          case (Inl f)
          then have "fetch_and_process_url py w url session
              = returns session [HttpGet url, Generate SummaryPrompt (content r),
                                 Generate MomPrompt (content r)] (fetch_failed f)"
            using r ok filled summary by (simp add: fetch_and_process_url_def Let_def)
          then show ?thesis by blast
        next
          case mom: (Inr mom_text)
          have "json_loads w (strip_fences py mom_text) = None"
            using assms r ok filled summary mom by (simp add: ingestion_fails_def)
          then have "fetch_and_process_url py w url session
              = returns session [HttpGet url, Generate SummaryPrompt (content r),
                                 Generate MomPrompt (content r)] decode_error_message"
            using r ok filled summary mom by (simp add: fetch_and_process_url_def Let_def)
          then show ?thesis by blast
        qed
      qed
    qed
  qed
qed



section \<open>The ingestion as a whole\<close>

text \<open>When no step before the appends fails, the tool reaches them.\<close>

lemma fetch_success_cases:
  assumes "\<not> ingestion_fails py w url"
  shows "\<exists>summary mom cs.
     fetch_and_process_url py w url session = save_to_session url summary mom session cs"
  using assms
  by (auto simp: ingestion_fails_def fetch_and_process_url_def Let_def
      split: sum.splits option.splits)

text \<open>Both appends succeed when both keys are absent or hold lists.\<close>

lemma save_to_session_appendable:
  assumes "appendable ''summaries'' session" and "appendable ''moms'' session"
  shows "outcome (save_to_session url summary mom session cs) = Inr (PStr (saved_message url))
     \<and> map_of (session_after (save_to_session url summary mom session cs)) ''summaries''
         = Some (PList (stored_list ''summaries'' session @ [summary_record url summary]))
     \<and> map_of (session_after (save_to_session url summary mom session cs)) ''moms''
         = Some (PList (stored_list ''moms'' session @ [mom_record url mom]))"
proof -
  let ?s1 = "AList.update ''summaries''
      (PList (stored_list ''summaries'' session @ [summary_record url summary])) session"
  have s1: "append_record ''summaries'' (summary_record url summary) session = Inr ?s1"
    using assms(1) by (rule append_record_appendable)
  have same: "map_of ?s1 ''moms'' = map_of session ''moms''"
    by (simp add: update_conv')
  then have "appendable ''moms'' ?s1" and before: "stored_list ''moms'' ?s1 = stored_list ''moms'' session"
    using assms(2) by (simp_all add: appendable_def stored_list_def)
  then have s2: "append_record ''moms'' (mom_record url mom) ?s1
      = Inr (AList.update ''moms'' (PList (stored_list ''moms'' session @ [mom_record url mom])) ?s1)"
    using append_record_appendable [of "''moms''" ?s1] by simp
  show ?thesis
    by (simp add: save_to_session_def s1 s2 returns_def update_conv')
qed

text \<open>
  For a session whose \<^verbatim>\<open>summaries\<close> and \<^verbatim>\<open>moms\<close> are absent or lists, the ingestion is
  all or nothing: it appends both records and returns the confirmation, or it returns
  another string and leaves the session as it was.
\<close>

lemma ingestion_all_or_nothing:
  assumes "appendable ''summaries'' session" and "appendable ''moms'' session"
  shows "(outcome (fetch_and_process_url py w url session) = Inr (PStr (saved_message url))
          \<and> (\<exists>summary mom.
                map_of (session_after (fetch_and_process_url py w url session)) ''summaries''
                  = Some (PList (stored_list ''summaries'' session @ [summary_record url summary]))
                \<and> map_of (session_after (fetch_and_process_url py w url session)) ''moms''
                  = Some (PList (stored_list ''moms'' session @ [mom_record url mom]))))
       \<or> (session_after (fetch_and_process_url py w url session) = session
          \<and> (\<exists>msg. outcome (fetch_and_process_url py w url session) = Inr (PStr msg)
                \<and> msg \<noteq> saved_message url))"
proof (cases "ingestion_fails py w url")
  case True
  then obtain cs msg where run: "fetch_and_process_url py w url session = returns session cs msg"
      and msg: "(\<exists>f. msg = fetch_failed f) \<or> msg = no_text_message \<or> msg = decode_error_message"
    using fetch_failure_cases by blast
  have "msg \<noteq> saved_message url"
  proof
    assume saved: "msg = saved_message url"
    from msg show False
    proof (elim disjE exE)
      fix f
      assume "msg = fetch_failed f"
      then show False
        using saved fetch_failed_not_saved [of f url] by simp
    next
      assume "msg = no_text_message"
      then show False
        using saved by (simp add: no_text_message_def saved_message_def)
    next
      assume "msg = decode_error_message"
      then show False
        using saved by (simp add: decode_error_message_def saved_message_def)
    qed
  qed
  then show ?thesis
    by (simp add: run returns_def)
next
  case False
  then obtain summary mom cs where
    "fetch_and_process_url py w url session = save_to_session url summary mom session cs"
    using fetch_success_cases by blast
  then show ?thesis
    using save_to_session_appendable [OF assms, of url summary mom cs] by auto
qed

text \<open>
  Outside that: when \<^verbatim>\<open>moms\<close> holds a string, the summary is appended before the
  append to \<^verbatim>\<open>moms\<close> raises, and the handler turns the error into a string.
\<close>

lemma ingestion_with_a_string_for_moms:
  "outcome (fetch_and_process_url ascii_python office_world ''https://example.com/t6'' [(''moms'', PStr ''none'')])
     = Inr (PStr (''An unexpected error occurred: '' @ sq @ ''str'' @ sq
                  @ '' object has no attribute '' @ sq @ ''append'' @ sq))
   \<and> session_after (fetch_and_process_url ascii_python office_world ''https://example.com/t6''
         [(''moms'', PStr ''none'')])
     = [(''moms'', PStr ''none''),
        (''summaries'', PList [PDict [(''url'', PStr ''https://example.com/t6''),
                                      (''summary'', PStr ''Short sync.'')]])]"
  by code_simp

text \<open>
  The email executor catches \<^verbatim>\<open>SMTPException\<close> only: any other failure of the mail
  server leaves the tool as an exception.
\<close>

lemma send_email_lets_other_failures_out:
  "outcome (send_email ascii_python (office_world\<lparr>smtp_connect := (\<lambda>host port. Some (OtherException ''timed out''))\<rparr>)
      ''ann@example.com'' review_session) = Inl (Propagated ''timed out'')"
  by code_simp

end
